theory Spec2Isabelle
  imports Complex_Main "HOL-Library.AList"
begin

section \<open>Exceptions and outcomes\<close>

text \<open>
  The services are Python. A call either returns a value or raises; the model makes that
  an explicit value. An exception is its class name and its message (\<open>str(e)\<close>); every
  exception of the model is an instance of \<open>Exception\<close>, the class all handlers of the
  sources name. Wall-clock readings (\<open>time.time()\<close>) and delays are Python floats; the
  model takes them as real numbers and passes each reading in as an argument.
\<close>

datatype py_exc = PyExc (exc_type: string) (exc_msg: string)

datatype 'a outcome = Returns 'a | Raises py_exc

section \<open>shared/circuit\_breaker.py\<close>

datatype CircuitState = CLOSED | OPEN | HALF_OPEN

record CircuitBreaker =
  failure_threshold :: int
  recovery_timeout :: real
  expected_exception :: "py_exc \<Rightarrow> bool"
  failure_count :: int
  last_failure_time :: "real option"
  state :: CircuitState

text \<open>\<open>CircuitBreaker.__init__\<close>; \<open>expected_exception\<close> is the \<open>isinstance\<close> test of the
  class given (the default \<open>Exception\<close> accepts every exception of the model).\<close>

definition CircuitBreaker_init :: "int \<Rightarrow> real \<Rightarrow> (py_exc \<Rightarrow> bool) \<Rightarrow> CircuitBreaker" where
  "CircuitBreaker_init threshold timeout expected =
     \<lparr>failure_threshold = threshold, recovery_timeout = timeout,
      expected_exception = expected, failure_count = 0,
      last_failure_time = None, state = CLOSED\<rparr>"

definition isinstance_Exception :: "py_exc \<Rightarrow> bool" where
  "isinstance_Exception e = True"

definition on_success :: "CircuitBreaker \<Rightarrow> CircuitBreaker" where
  "on_success cb =
     (if state cb = HALF_OPEN then cb\<lparr>state := CLOSED, failure_count := 0\<rparr>
      else if state cb = CLOSED then cb\<lparr>failure_count := 0\<rparr>
      else cb)"

text \<open>\<open>on_failure\<close>; \<open>now\<close> is the reading of \<open>time.time()\<close> it stores.\<close>

definition on_failure :: "real \<Rightarrow> CircuitBreaker \<Rightarrow> CircuitBreaker" where
  "on_failure now cb =
     (let cb1 = cb\<lparr>failure_count := failure_count cb + 1, last_failure_time := Some now\<rparr>
      in if failure_count cb1 \<ge> failure_threshold cb1 then cb1\<lparr>state := OPEN\<rparr> else cb1)"

text \<open>
  The \<open>try\<close> block of \<open>call\<close>: the wrapped operation is invoked here. Its result is
  \<open>func\<close>; \<open>t_done\<close> is the clock reading when it has failed. The third component of
  the result records the invocation: the state the breaker was in when the operation ran.
  An exception that is not an \<open>expected_exception\<close> passes through with the breaker
  untouched.
\<close>

definition call_try ::
  "CircuitBreaker \<Rightarrow> 'a outcome \<Rightarrow> real \<Rightarrow> 'a outcome \<times> CircuitBreaker \<times> CircuitState option" where
  "call_try cb func t_done =
     (case func of
        Returns result \<Rightarrow> (Returns result, on_success cb, Some (state cb))
      | Raises e \<Rightarrow>
          if expected_exception cb e then (Raises e, on_failure t_done cb, Some (state cb))
          else (Raises e, cb, Some (state cb)))"

text \<open>
  \<open>CircuitBreaker.call\<close>; \<open>now\<close> is the clock reading of the OPEN test. When the
  operation is not invoked the third component is \<open>None\<close>. \<open>last_failure_time\<close> is
  \<open>None\<close> until the first failure; subtracting it raises \<open>TypeError\<close> in Python.
\<close>

definition call ::
  "CircuitBreaker \<Rightarrow> real \<Rightarrow> 'a outcome \<Rightarrow> real \<Rightarrow> 'a outcome \<times> CircuitBreaker \<times> CircuitState option" where
  "call cb now func t_done =
     (if state cb = OPEN then
        (case last_failure_time cb of
           None \<Rightarrow> (Raises (PyExc ''TypeError'' ''unsupported operand type(s) for -''), cb, None)
         | Some lf \<Rightarrow>
             if now - lf > recovery_timeout cb
             then call_try (cb\<lparr>state := HALF_OPEN\<rparr>) func t_done
             else (Raises (PyExc ''Exception'' ''Circuit breaker is OPEN - service unavailable''),
                   cb, None))
      else call_try cb func t_done)"

text \<open>A sequence of calls on one breaker, each given as (time of the call, result of the
  operation, time at which it finished); the breaker after the last one.\<close>

fun calls :: "CircuitBreaker \<Rightarrow> (real \<times> 'a outcome \<times> real) list \<Rightarrow> CircuitBreaker" where
  "calls cb [] = cb"
| "calls cb ((now, func, t_done) # rest) = calls (fst (snd (call cb now func t_done))) rest"

section \<open>shared/retry.py\<close>

text \<open>
  The wrapper built by \<open>retry_with_backoff\<close>. \<open>func k\<close> is the result of the
  \<open>k\<close>-th invocation of the wrapped operation (counted from 0); \<open>exceptions\<close> is the
  \<open>isinstance\<close> test of the tuple of classes. The result is what the wrapper returns or
  raises, the list of the delays it slept (in order) and the number of times it invoked
  the operation.

  \<open>retry_loop\<close> is the \<open>for attempt in range(max_retries + 1)\<close> loop: its first numeric
  argument is the number of iterations still to run, then the loop variable, the local
  \<open>delay\<close> and \<open>last_exception\<close>. \<open>time.sleep\<close> raises \<open>ValueError\<close> on a negative
  argument, from inside the handler, so that exception leaves the wrapper. The statement
  after the loop is reached only when the range is empty, where \<open>raise None\<close> is a
  \<open>TypeError\<close>.
\<close>

fun retry_loop ::
  "int \<Rightarrow> real \<Rightarrow> real \<Rightarrow> (py_exc \<Rightarrow> bool) \<Rightarrow> (nat \<Rightarrow> 'a outcome) \<Rightarrow>
   nat \<Rightarrow> int \<Rightarrow> real \<Rightarrow> py_exc option \<Rightarrow> 'a outcome \<times> real list \<times> nat" where
  "retry_loop max_retries max_delay exponential_base exceptions func 0 attempt delay last_exception =
     (case last_exception of
        None \<Rightarrow> (Raises (PyExc ''TypeError'' ''exceptions must derive from BaseException''), [], 0)
      | Some e \<Rightarrow> (Raises e, [], 0))"
| "retry_loop max_retries max_delay exponential_base exceptions func (Suc remaining) attempt delay last_exception =
     (case func (nat attempt) of
        Returns v \<Rightarrow> (Returns v, [], 1)
      | Raises e \<Rightarrow>
          if exceptions e then
            if attempt < max_retries then
              if min delay max_delay < 0
              then (Raises (PyExc ''ValueError'' ''sleep length must be non-negative''), [], 1)
              else
                (case retry_loop max_retries max_delay exponential_base exceptions func
                        remaining (attempt + 1) (delay * exponential_base) (Some e) of
                   (res, sleeps, n) \<Rightarrow> (res, min delay max_delay # sleeps, n + 1))
            else (Raises e, [], 1)
          else (Raises e, [], 1))"

definition retry_with_backoff ::
  "int \<Rightarrow> real \<Rightarrow> real \<Rightarrow> real \<Rightarrow> (py_exc \<Rightarrow> bool) \<Rightarrow> (nat \<Rightarrow> 'a outcome) \<Rightarrow>
   'a outcome \<times> real list \<times> nat" where
  "retry_with_backoff max_retries initial_delay max_delay exponential_base exceptions func =
     retry_loop max_retries max_delay exponential_base exceptions func
       (nat (max_retries + 1)) 0 initial_delay None"

section \<open>JSON values and Python dictionaries\<close>

text \<open>
  Message bodies, user profiles, templates and cached results are JSON documents, which
  Python reads as \<open>None\<close>, booleans, numbers, strings, lists and dictionaries. A
  dictionary is an association list with one entry per key. \<open>truthy\<close> is Python's truth
  test (\<open>if x:\<close>), \<open>dict_get\<close> is \<open>x.get(key, default)\<close> and \<open>dict_item\<close> is
  \<open>x[key]\<close>; on a value that is not a dictionary the first raises \<open>AttributeError\<close> and
  the second \<open>TypeError\<close>.
\<close>

datatype json =
    JNull
  | JBool bool
  | JInt int
  | JStr string
  | JArr "json list"
  | JObj "(string \<times> json) list"

fun truthy :: "json \<Rightarrow> bool" where
  "truthy JNull = False"
| "truthy (JBool b) = b"
| "truthy (JInt i) = (i \<noteq> 0)"
| "truthy (JStr s) = (s \<noteq> [])"
| "truthy (JArr xs) = (xs \<noteq> [])"
| "truthy (JObj kvs) = (kvs \<noteq> [])"

fun dict_get :: "json \<Rightarrow> string \<Rightarrow> json \<Rightarrow> json outcome" where
  "dict_get (JObj kvs) key dflt =
     Returns (case map_of kvs key of None \<Rightarrow> dflt | Some v \<Rightarrow> v)"
| "dict_get other key dflt = Raises (PyExc ''AttributeError'' ''object has no attribute get'')"

fun dict_item :: "json \<Rightarrow> string \<Rightarrow> json outcome" where
  "dict_item (JObj kvs) key =
     (case map_of kvs key of None \<Rightarrow> Raises (PyExc ''KeyError'' key) | Some v \<Rightarrow> Returns v)"
| "dict_item other key = Raises (PyExc ''TypeError'' ''object is not subscriptable'')"

section \<open>What a consumer does to the outside world\<close>

text \<open>
  \<open>BasicProperties\<close> are the AMQP properties of a message (\<open>pika.BasicProperties\<close>);
  header values are the integers the consumers store. An \<open>event\<close> is one effect of
  \<open>process_message\<close>, in the order the code performs them: the three channel methods
  with their arguments, the HTTP POST of a status report (the notification id of the URL,
  the JSON payload, the service token), a warning written to the log, and one call of the
  decorated \<open>send\<close> of a sender (its arguments, the number of attempts it made and the
  delays it slept between them).
\<close>

record BasicProperties =
  headers :: "(string \<times> int) list option"
  delivery_mode :: "int option"
  content_type :: "string option"

datatype event =
    BasicAck int
  | BasicNack int bool
  | BasicPublish string string string BasicProperties
  | RequestsPost json "(string \<times> json) list" string
  | LogWarning string
  | SenderSend "json list" nat "real list"

text \<open>
  The collaborators of one \<open>process_message\<close> run. \<open>json_loads\<close> is \<open>json.loads\<close>
  and \<open>py_str\<close> is the text an f-string gives a value. \<open>get_user\<close>, \<open>get_template\<close> and
  \<open>render_template\<close> are the decorated methods of \<open>HTTPClient\<close> as a consumer calls
  them: each returns the data of the reply, \<open>None\<close> (\<open>JNull\<close>) or raises.
  \<open>sender_send args k\<close> is the result of the \<open>k\<close>-th attempt of the undecorated
  \<open>send\<close>. \<open>requests_post\<close> is the POST of a status report: the HTTP status code of
  the reply, or the exception of a network failure. \<open>time_call\<close> and \<open>time_done\<close> are
  the clock readings of the consumer's circuit breaker.
  \<open>push_update_notification_status\<close> stands for
  \<open>HTTPClient.update_notification_status\<close> of the push service
  (services/push\_service/http\_client.py, a file the repository does not show): it is a
  parameter that may return or raise, with whatever effects it has.
\<close>

record collaborators =
  json_loads :: "string \<Rightarrow> json outcome"
  py_str :: "json \<Rightarrow> string"
  get_user :: "json \<Rightarrow> json outcome"
  get_template :: "json \<Rightarrow> json outcome"
  render_template :: "json \<Rightarrow> json \<Rightarrow> json outcome"
  sender_send :: "json list \<Rightarrow> nat \<Rightarrow> json outcome"
  requests_post :: "json \<Rightarrow> (string \<times> json) list \<Rightarrow> int outcome"
  service_token :: string
  time_call :: real
  time_done :: real
  push_update_notification_status :: "json \<Rightarrow> string \<Rightarrow> string option \<Rightarrow> unit outcome \<times> event list"

section \<open>services/email\_service/http\_client.py\<close>

text \<open>
  \<open>HTTPClient.update_notification_status\<close>. The payload carries \<open>error\<close> only when it
  is a non-empty string. The reply of the POST is dropped without a look at its status
  code; an exception of the POST is caught and logged as a warning. The method returns
  \<open>None\<close> on every path, so the model returns its effects only.
\<close>

definition update_notification_status ::
  "collaborators \<Rightarrow> json \<Rightarrow> string \<Rightarrow> string option \<Rightarrow> event list" where
  "update_notification_status env notification_id status error =
     (let payload = (''status'', JStr status) #
            (case error of
               None \<Rightarrow> []
             | Some err \<Rightarrow> if err \<noteq> [] then [(''error'', JStr err)] else [])
      in RequestsPost notification_id payload (service_token env) #
         (case requests_post env notification_id payload of
            Returns response \<Rightarrow> []
          | Raises e \<Rightarrow> [LogWarning (''Failed to update status: '' @ exc_msg e)]))"

section \<open>The retry decision of both consumers\<close>

text \<open>
  The last statements of the \<open>except\<close> block, the same text in
  \<open>EmailConsumer.process_message\<close> and \<open>PushConsumer.process_message\<close>. The header is
  read from \<open>properties\<close>, the object pika handed to the callback, and the incremented
  value is written to that same object; the result is the channel calls made and the
  object afterwards. \<open>basic_nack\<close> is given the delivery tag and the requeue flag only.
\<close>

definition retry_count_of :: "BasicProperties \<Rightarrow> int" where
  "retry_count_of properties =
     (case headers properties of
        None \<Rightarrow> 0
      | Some h \<Rightarrow> if h = [] then 0
                  else (case map_of h ''x-retry-count'' of None \<Rightarrow> 0 | Some c \<Rightarrow> c))"

definition retry_or_dead_letter ::
  "int \<Rightarrow> BasicProperties \<Rightarrow> string \<Rightarrow> event list \<times> BasicProperties" where
  "retry_or_dead_letter delivery_tag properties body =
     (let retry_count = retry_count_of properties
      in if retry_count < 3
         then ([BasicNack delivery_tag True],
               properties\<lparr>headers := Some (AList.update ''x-retry-count'' (retry_count + 1)
                    (case headers properties of None \<Rightarrow> [] | Some h \<Rightarrow> h))\<rparr>)
         else ([BasicNack delivery_tag False,
                BasicPublish ''notifications.direct'' ''failed'' body
                  \<lparr>headers = None, delivery_mode = Some 2, content_type = None\<rparr>],
               properties))"

section \<open>services/email\_service/consumer.py\<close>

text \<open>
  \<open>send_email\<close>, the closure handed to the circuit breaker: it reads its arguments
  (\<open>rendered["subject"]\<close> may raise) and calls \<open>EmailSender.send\<close>, which
  \<open>sender.py\<close> decorates with \<open>retry_with_backoff(max_retries=3, initial_delay=1.0)\<close>.
\<close>

definition send_email :: "collaborators \<Rightarrow> json \<Rightarrow> json \<Rightarrow> json outcome \<times> event list" where
  "send_email env user_data rendered =
     (case dict_item user_data ''email'' of
        Raises e \<Rightarrow> (Raises e, [])
      | Returns to_email \<Rightarrow>
     (case dict_item rendered ''subject'' of
        Raises e \<Rightarrow> (Raises e, [])
      | Returns subject \<Rightarrow>
     (case dict_item rendered ''body'' of
        Raises e \<Rightarrow> (Raises e, [])
      | Returns body \<Rightarrow>
     (case retry_with_backoff 3 1 60 2 isinstance_Exception
             (sender_send env [to_email, subject, body]) of
        (res, sleeps, attempts) \<Rightarrow>
          (res, [SenderSend [to_email, subject, body] attempts sleeps])))))"

text \<open>
  The \<open>try\<close> block of \<open>EmailConsumer.process_message\<close>, from the call of the circuit
  breaker on: the send, the report of \<open>delivered\<close> and the acknowledgement.
\<close>

definition email_deliver ::
  "collaborators \<Rightarrow> CircuitBreaker \<Rightarrow> int \<Rightarrow> json \<Rightarrow> json \<Rightarrow> json \<Rightarrow>
   unit outcome \<times> event list \<times> CircuitBreaker" where
  "email_deliver env cb delivery_tag request_id user_data rendered =
     (case call cb (time_call env) (fst (send_email env user_data rendered)) (time_done env) of
        (res, cb', invoked) \<Rightarrow>
          (let sent = (case invoked of None \<Rightarrow> [] | Some st \<Rightarrow> snd (send_email env user_data rendered))
           in case res of
                Raises e \<Rightarrow> (Raises e, sent, cb')
              | Returns result \<Rightarrow>
                  if truthy result
                  then (Returns (),
                        sent @ update_notification_status env request_id ''delivered'' None
                             @ [BasicAck delivery_tag],
                        cb')
                  else (Raises (PyExc ''Exception'' ''Failed to send email''), sent, cb')))"

text \<open>The \<open>try\<close> block of \<open>EmailConsumer.process_message\<close>: what it raises (or that it
  completed), its effects and the consumer's circuit breaker afterwards.\<close>

definition email_try ::
  "collaborators \<Rightarrow> CircuitBreaker \<Rightarrow> int \<Rightarrow> string \<Rightarrow>
   unit outcome \<times> event list \<times> CircuitBreaker" where
  "email_try env cb delivery_tag body =
     (case json_loads env body of
        Raises e \<Rightarrow> (Raises e, [], cb)
      | Returns message \<Rightarrow>
     (case dict_get message ''request_id'' (JStr ''unknown'') of
        Raises e \<Rightarrow> (Raises e, [], cb)
      | Returns request_id \<Rightarrow>
     (case dict_get message ''user_id'' JNull of
        Raises e \<Rightarrow> (Raises e, [], cb)
      | Returns user_id \<Rightarrow>
     (case get_user env user_id of
        Raises e \<Rightarrow> (Raises e, [], cb)
      | Returns user_data \<Rightarrow>
     if \<not> truthy user_data
     then (Raises (PyExc ''Exception''
                    (''User '' @ py_str env user_id @ '' not found or has no email'')), [], cb)
     else
     (case dict_get user_data ''email'' JNull of
        Raises e \<Rightarrow> (Raises e, [], cb)
      | Returns email \<Rightarrow>
     if \<not> truthy email
     then (Raises (PyExc ''Exception''
                    (''User '' @ py_str env user_id @ '' not found or has no email'')), [], cb)
     else
     (case dict_get user_data ''email_enabled'' (JBool True) of
        Raises e \<Rightarrow> (Raises e, [], cb)
      | Returns email_enabled \<Rightarrow>
     if \<not> truthy email_enabled
     then (Returns (), [BasicAck delivery_tag], cb)
     else
     (case dict_get message ''template_code'' JNull of
        Raises e \<Rightarrow> (Raises e, [], cb)
      | Returns template_code \<Rightarrow>
     (case get_template env template_code of
        Raises e \<Rightarrow> (Raises e, [], cb)
      | Returns template \<Rightarrow>
     if \<not> truthy template
     then (Raises (PyExc ''Exception''
                    (''Template '' @ py_str env template_code @ '' not found'')), [], cb)
     else
     (case dict_get message ''variables'' (JObj []) of
        Raises e \<Rightarrow> (Raises e, [], cb)
      | Returns variables \<Rightarrow>
     (case render_template env template_code variables of
        Raises e \<Rightarrow> (Raises e, [], cb)
      | Returns rendered \<Rightarrow>
     if \<not> truthy rendered
     then (Raises (PyExc ''Exception'' ''Failed to render template''), [], cb)
     else email_deliver env cb delivery_tag request_id user_data rendered))))))))))"

text \<open>
  The first part of the \<open>except\<close> block: the report of \<open>failed\<close>, inside its own
  \<open>try\<close> with a bare \<open>except: pass\<close>. \<open>message\<close> is \<open>None\<close> when \<open>json.loads\<close>
  raised; \<open>request_id\<close> is still \<open>"unknown"\<close> unless the first \<open>message.get\<close> of the
  \<open>try\<close> block succeeded. When \<open>message\<close> is true but no dictionary,
  \<open>message.get\<close> raises here and the report is skipped.
\<close>

definition email_report_failed :: "collaborators \<Rightarrow> string \<Rightarrow> py_exc \<Rightarrow> event list" where
  "email_report_failed env body e =
     (case json_loads env body of
        Raises e' \<Rightarrow> update_notification_status env (JStr ''unknown'') ''failed'' (Some (exc_msg e))
      | Returns message \<Rightarrow>
          if truthy message then
            (case dict_get message ''request_id'' (JStr ''unknown'') of
               Raises e' \<Rightarrow> []
             | Returns request_id \<Rightarrow>
                 update_notification_status env request_id ''failed'' (Some (exc_msg e)))
          else update_notification_status env (JStr ''unknown'') ''failed'' (Some (exc_msg e)))"

text \<open>
  \<open>EmailConsumer.process_message(ch, method, properties, body)\<close>: the effects in order,
  the consumer's circuit breaker afterwards, and the \<open>properties\<close> object as the callback
  leaves it.
\<close>

definition EmailConsumer_process_message ::
  "collaborators \<Rightarrow> CircuitBreaker \<Rightarrow> int \<Rightarrow> BasicProperties \<Rightarrow> string \<Rightarrow>
   event list \<times> CircuitBreaker \<times> BasicProperties" where
  "EmailConsumer_process_message env cb delivery_tag properties body =
     (case email_try env cb delivery_tag body of
        (Returns u, evs, cb') \<Rightarrow> (evs, cb', properties)
      | (Raises e, evs, cb') \<Rightarrow>
          (case retry_or_dead_letter delivery_tag properties body of
             (decision, properties') \<Rightarrow>
               (evs @ email_report_failed env body e @ decision, cb', properties')))"

section \<open>services/push\_service/consumer.py\<close>

text \<open>\<open>send_push\<close>, the closure handed to the circuit breaker; \<open>PushSender.send\<close> has
  the same decorator as the email sender.\<close>

definition send_push ::
  "collaborators \<Rightarrow> json \<Rightarrow> json \<Rightarrow> json \<Rightarrow> json outcome \<times> event list" where
  "send_push env message push_token rendered =
     (case dict_get rendered ''subject'' (JStr ''Notification'') of
        Raises e \<Rightarrow> (Raises e, [])
      | Returns title \<Rightarrow>
     (case dict_get rendered ''body'' (JStr []) of
        Raises e \<Rightarrow> (Raises e, [])
      | Returns body \<Rightarrow>
     (case dict_get message ''metadata'' (JObj []) of
        Raises e \<Rightarrow> (Raises e, [])
      | Returns data \<Rightarrow>
     (case retry_with_backoff 3 1 60 2 isinstance_Exception
             (sender_send env [push_token, title, body, data]) of
        (res, sleeps, attempts) \<Rightarrow>
          (res, [SenderSend [push_token, title, body, data] attempts sleeps])))))"

definition push_deliver ::
  "collaborators \<Rightarrow> CircuitBreaker \<Rightarrow> int \<Rightarrow> json \<Rightarrow> json \<Rightarrow> json \<Rightarrow> json \<Rightarrow>
   unit outcome \<times> event list \<times> CircuitBreaker" where
  "push_deliver env cb delivery_tag message request_id push_token rendered =
     (case call cb (time_call env) (fst (send_push env message push_token rendered)) (time_done env) of
        (res, cb', invoked) \<Rightarrow>
          (let sent = (case invoked of None \<Rightarrow> []
                       | Some st \<Rightarrow> snd (send_push env message push_token rendered))
           in case res of
                Raises e \<Rightarrow> (Raises e, sent, cb')
              | Returns result \<Rightarrow>
                  if truthy result
                  then (case push_update_notification_status env request_id ''delivered'' None of
                          (Raises e, reported) \<Rightarrow> (Raises e, sent @ reported, cb')
                        | (Returns u, reported) \<Rightarrow>
                            (Returns (), sent @ reported @ [BasicAck delivery_tag], cb'))
                  else (Raises (PyExc ''Exception'' ''Failed to send push notification''),
                        sent, cb')))"

definition push_try ::
  "collaborators \<Rightarrow> CircuitBreaker \<Rightarrow> int \<Rightarrow> string \<Rightarrow>
   unit outcome \<times> event list \<times> CircuitBreaker" where
  "push_try env cb delivery_tag body =
     (case json_loads env body of
        Raises e \<Rightarrow> (Raises e, [], cb)
      | Returns message \<Rightarrow>
     (case dict_get message ''request_id'' (JStr ''unknown'') of
        Raises e \<Rightarrow> (Raises e, [], cb)
      | Returns request_id \<Rightarrow>
     (case dict_get message ''user_id'' JNull of
        Raises e \<Rightarrow> (Raises e, [], cb)
      | Returns user_id \<Rightarrow>
     (case get_user env user_id of
        Raises e \<Rightarrow> (Raises e, [], cb)
      | Returns user_data \<Rightarrow>
     if \<not> truthy user_data
     then (Raises (PyExc ''Exception'' (''User '' @ py_str env user_id @ '' not found'')), [], cb)
     else
     (case dict_get user_data ''push_enabled'' (JBool True) of
        Raises e \<Rightarrow> (Raises e, [], cb)
      | Returns push_enabled \<Rightarrow>
     if \<not> truthy push_enabled
     then (Returns (), [BasicAck delivery_tag], cb)
     else
     (case dict_get user_data ''push_token'' JNull of
        Raises e \<Rightarrow> (Raises e, [], cb)
      | Returns push_token \<Rightarrow>
     if \<not> truthy push_token
     then (Raises (PyExc ''Exception''
                    (''User '' @ py_str env user_id @ '' has no push token'')), [], cb)
     else
     (case dict_get message ''template_code'' JNull of
        Raises e \<Rightarrow> (Raises e, [], cb)
      | Returns template_code \<Rightarrow>
     (case get_template env template_code of
        Raises e \<Rightarrow> (Raises e, [], cb)
      | Returns template \<Rightarrow>
     if \<not> truthy template
     then (Raises (PyExc ''Exception''
                    (''Template '' @ py_str env template_code @ '' not found'')), [], cb)
     else
     (case dict_get message ''variables'' (JObj []) of
        Raises e \<Rightarrow> (Raises e, [], cb)
      | Returns variables \<Rightarrow>
     (case render_template env template_code variables of
        Raises e \<Rightarrow> (Raises e, [], cb)
      | Returns rendered \<Rightarrow>
     if \<not> truthy rendered
     then (Raises (PyExc ''Exception'' ''Failed to render template''), [], cb)
     else push_deliver env cb delivery_tag message request_id push_token rendered))))))))))"

text \<open>The report of \<open>failed\<close> in the \<open>except\<close> block; the bare \<open>except: pass\<close> around
  it drops whatever the reporter raises.\<close>

definition push_report_failed :: "collaborators \<Rightarrow> string \<Rightarrow> py_exc \<Rightarrow> event list" where
  "push_report_failed env body e =
     (case json_loads env body of
        Raises e' \<Rightarrow>
          snd (push_update_notification_status env (JStr ''unknown'') ''failed'' (Some (exc_msg e)))
      | Returns message \<Rightarrow>
          if truthy message then
            (case dict_get message ''request_id'' (JStr ''unknown'') of
               Raises e' \<Rightarrow> []
             | Returns request_id \<Rightarrow>
                 snd (push_update_notification_status env request_id ''failed'' (Some (exc_msg e))))
          else
            snd (push_update_notification_status env (JStr ''unknown'') ''failed'' (Some (exc_msg e))))"

definition PushConsumer_process_message ::
  "collaborators \<Rightarrow> CircuitBreaker \<Rightarrow> int \<Rightarrow> BasicProperties \<Rightarrow> string \<Rightarrow>
   event list \<times> CircuitBreaker \<times> BasicProperties" where
  "PushConsumer_process_message env cb delivery_tag properties body =
     (case push_try env cb delivery_tag body of
        (Returns u, evs, cb') \<Rightarrow> (evs, cb', properties)
      | (Raises e, evs, cb') \<Rightarrow>
          (case retry_or_dead_letter delivery_tag properties body of
             (decision, properties') \<Rightarrow>
               (evs @ push_report_failed env body e @ decision, cb', properties')))"

section \<open>The broker behind the channel\<close>

text \<open>
  The services talk to RabbitMQ through pika; the broker is not code of the repository.
  The model keeps what the channel methods used in the sources do under AMQP 0-9-1:
  declarations are idempotent; a direct exchange hands a message to every queue bound to
  it with a binding key equal to the routing key; the default exchange (the empty name)
  hands it to the queue named by the routing key; a message no queue takes is dropped
  (no publish in the sources sets \<open>mandatory\<close>); a message is delivered from the head of
  its queue and stays with the broker until settled; \<open>basic_ack\<close> and \<open>basic_nack\<close>
  without requeue discard it (no queue is declared with a dead-letter exchange);
  \<open>basic_nack\<close> with requeue puts the message the broker holds back at the head.
\<close>

record amqp_message =
  msg_properties :: BasicProperties
  msg_body :: string

record broker =
  exchanges :: "(string \<times> string) list"
  queues :: "(string \<times> amqp_message list) list"
  bindings :: "(string \<times> string \<times> string) list"

definition empty_broker :: broker where
  "empty_broker = \<lparr>exchanges = [], queues = [], bindings = []\<rparr>"

definition exchange_declare :: "string \<Rightarrow> string \<Rightarrow> broker \<Rightarrow> broker" where
  "exchange_declare exchange exchange_type b =
     (if exchange \<in> set (map fst (exchanges b)) then b
      else b\<lparr>exchanges := exchanges b @ [(exchange, exchange_type)]\<rparr>)"

definition queue_declare :: "string \<Rightarrow> broker \<Rightarrow> broker" where
  "queue_declare queue b =
     (if queue \<in> set (map fst (queues b)) then b
      else b\<lparr>queues := queues b @ [(queue, [])]\<rparr>)"

definition queue_bind :: "string \<Rightarrow> string \<Rightarrow> string \<Rightarrow> broker \<Rightarrow> broker" where
  "queue_bind exchange queue routing_key b =
     b\<lparr>bindings := List.insert (exchange, queue, routing_key) (bindings b)\<rparr>"

definition queue_content :: "broker \<Rightarrow> string \<Rightarrow> amqp_message list" where
  "queue_content b queue = (case map_of (queues b) queue of None \<Rightarrow> [] | Some ms \<Rightarrow> ms)"

definition set_queue :: "string \<Rightarrow> amqp_message list \<Rightarrow> broker \<Rightarrow> broker" where
  "set_queue queue ms b =
     b\<lparr>queues := map (\<lambda>(name, old). if name = queue then (name, ms) else (name, old)) (queues b)\<rparr>"

definition route :: "broker \<Rightarrow> string \<Rightarrow> string \<Rightarrow> string list" where
  "route b exchange routing_key =
     (if exchange = [] then filter (\<lambda>queue. queue = routing_key) (map fst (queues b))
      else map (\<lambda>(ex, queue, binding_key). queue)
             (filter (\<lambda>(ex, queue, binding_key). ex = exchange \<and> binding_key = routing_key)
                (bindings b)))"

definition basic_publish :: "string \<Rightarrow> string \<Rightarrow> amqp_message \<Rightarrow> broker \<Rightarrow> broker" where
  "basic_publish exchange routing_key m b =
     fold (\<lambda>queue b'. set_queue queue (queue_content b' queue @ [m]) b')
       (route b exchange routing_key) b"

text \<open>\<open>QueueManager.initialize\<close> (api\_gateway/queue\_manager.py),
  \<open>EmailConsumer.connect\<close> and \<open>PushConsumer.connect\<close>: the declarations each makes,
  in order.\<close>

definition QueueManager_initialize :: "broker \<Rightarrow> broker" where
  "QueueManager_initialize b =
     queue_bind ''notifications.direct'' ''push.queue'' ''push''
      (queue_bind ''notifications.direct'' ''email.queue'' ''email''
        (queue_declare ''failed.queue''
          (queue_declare ''push.queue''
            (queue_declare ''email.queue''
              (exchange_declare ''notifications.direct'' ''direct'' b)))))"

definition EmailConsumer_connect :: "broker \<Rightarrow> broker" where
  "EmailConsumer_connect b =
     queue_declare ''failed.queue''
      (queue_bind ''notifications.direct'' ''email.queue'' ''email''
        (queue_declare ''email.queue''
          (exchange_declare ''notifications.direct'' ''direct'' b)))"

definition PushConsumer_connect :: "broker \<Rightarrow> broker" where
  "PushConsumer_connect b =
     queue_declare ''failed.queue''
      (queue_bind ''notifications.direct'' ''push.queue'' ''push''
        (queue_declare ''push.queue''
          (exchange_declare ''notifications.direct'' ''direct'' b)))"

text \<open>\<open>QueueManager.publish\<close>: persistent, JSON content type, no headers. The body is
  \<open>json.dumps(message)\<close>, given here as the text \<open>body\<close>.\<close>

definition QueueManager_publish :: "string \<Rightarrow> string \<Rightarrow> broker \<Rightarrow> broker" where
  "QueueManager_publish routing_key body b =
     basic_publish ''notifications.direct'' routing_key
       \<lparr>msg_properties = \<lparr>headers = None, delivery_mode = Some 2,
                           content_type = Some ''application/json''\<rparr>,
        msg_body = body\<rparr> b"

text \<open>
  What one channel call of a consumer does to the broker while message \<open>m\<close>, delivered
  from \<open>queue\<close>, is unsettled. The other events do not reach the broker.
\<close>

fun apply_event :: "string \<Rightarrow> amqp_message \<Rightarrow> event \<Rightarrow> broker \<Rightarrow> broker" where
  "apply_event queue m (BasicAck tag) b = b"
| "apply_event queue m (BasicNack tag requeue) b =
     (if requeue then set_queue queue (m # queue_content b queue) b else b)"
| "apply_event queue m (BasicPublish exchange routing_key body properties) b =
     basic_publish exchange routing_key \<lparr>msg_properties = properties, msg_body = body\<rparr> b"
| "apply_event queue m other b = b"

text \<open>
  One delivery: the broker takes the message at the head of the queue, the callback runs
  on a copy of its properties and its body, and the channel calls of the callback are
  applied in order. The callback's \<open>properties\<close> object is gone when it returns.
  \<open>consume\<close> is that for either consumer, given its \<open>process_message\<close>; the delivery tag
  is 1.
\<close>

definition consume ::
  "(CircuitBreaker \<Rightarrow> int \<Rightarrow> BasicProperties \<Rightarrow> string \<Rightarrow> event list \<times> CircuitBreaker \<times> BasicProperties) \<Rightarrow>
   string \<Rightarrow> broker \<times> CircuitBreaker \<Rightarrow> broker \<times> CircuitBreaker" where
  "consume process_message queue bc =
     (case bc of (b, cb) \<Rightarrow>
        (case queue_content b queue of
           [] \<Rightarrow> (b, cb)
         | m # rest \<Rightarrow>
             (case process_message cb 1 (msg_properties m) (msg_body m) of
                (evs, cb', properties') \<Rightarrow>
                  (fold (apply_event queue m) evs (set_queue queue rest b), cb'))))"

section \<open>shared/idempotency.py\<close>

text \<open>
  The Redis database of the gateway: each key holds the time to live it was stored with
  and its value. The value is the JSON text of \<open>json.dumps\<close>, read back by
  \<open>json.loads\<close>; the model keeps the JSON value itself. That text is never empty, so the
  test \<open>if cached:\<close> of \<open>check_and_store\<close> succeeds exactly when the key is present.
  \<open>check_and_store\<close> returns the cached value, or \<open>None\<close> (\<open>JNull\<close>) after storing.
  Expiry is a step of the store that no function below takes.
\<close>

type_synonym redis_db = "string \<rightharpoonup> int \<times> json"

definition generate_key :: "string \<Rightarrow> string \<Rightarrow> string" where
  "generate_key request_id service = ''idempotency:'' @ service @ '':'' @ request_id"

definition check_and_store ::
  "redis_db \<Rightarrow> int \<Rightarrow> string \<Rightarrow> string \<Rightarrow> json \<Rightarrow> json \<times> redis_db" where
  "check_and_store r ttl request_id service result =
     (let key = generate_key request_id service
      in case r key of
           Some (t, cached) \<Rightarrow> (cached, r)
         | None \<Rightarrow> (JNull, r(key \<mapsto> (ttl, result))))"

definition is_duplicate :: "redis_db \<Rightarrow> string \<Rightarrow> string \<Rightarrow> bool" where
  "is_duplicate r request_id service = (r (generate_key request_id service) \<noteq> None)"

section \<open>shared/models.py and services/api\_gateway/models.py\<close>

datatype NotificationType = NT_email | NT_push

fun NotificationType_value :: "NotificationType \<Rightarrow> string" where
  "NotificationType_value NT_email = ''email''"
| "NotificationType_value NT_push = ''push''"

datatype NotificationStatus = delivered | pending | failed

fun NotificationStatus_value :: "NotificationStatus \<Rightarrow> string" where
  "NotificationStatus_value delivered = ''delivered''"
| "NotificationStatus_value pending = ''pending''"
| "NotificationStatus_value failed = ''failed''"

text \<open>\<open>UserData\<close>, the variables of a request; \<open>UserData_dict\<close> is its \<open>.dict()\<close>,
  which always carries the three keys (\<open>meta\<close> is \<open>None\<close> when absent).\<close>

record UserData =
  name :: string
  link :: string
  meta :: json

definition UserData_dict :: "UserData \<Rightarrow> json" where
  "UserData_dict v = JObj [(''name'', JStr (name v)), (''link'', JStr (link v)), (''meta'', meta v)]"

record NotificationRequest =
  notification_type :: NotificationType
  user_id :: string
  template_code :: string
  variables :: UserData
  request_id :: "string option"
  priority :: int
  metadata :: json

record NotificationStatusUpdate =
  status :: NotificationStatus
  timestamp :: "real option"
  update_error :: "string option"

text \<open>\<open>ResponseModel\<close> with its two constructors \<open>success_response\<close> and
  \<open>error_response\<close>; \<open>meta\<close> is not used by the endpoints modelled.\<close>

record ResponseModel =
  success :: bool
  data :: "(string \<times> json) list option"
  error :: "string option"
  message :: string

definition success_response :: "(string \<times> json) list \<Rightarrow> string \<Rightarrow> ResponseModel" where
  "success_response d msg = \<lparr>success = True, data = Some d, error = None, message = msg\<rparr>"

definition error_response :: "string \<Rightarrow> string \<Rightarrow> ResponseModel" where
  "error_response err msg = \<lparr>success = False, data = None, error = Some err, message = msg\<rparr>"

text \<open>A row of the table \<open>notifications\<close>; \<open>notif_id\<close> is the primary key \<open>id\<close>.\<close>

record Notification =
  notif_id :: string
  notif_user_id :: string
  notif_type :: string
  notif_template_code :: string
  notif_status :: string
  notif_priority :: int
  notif_metadata :: json
  notif_error :: "string option"
  notif_updated_at :: "real option"

section \<open>The uuid column of the table\<close>

text \<open>
  \<open>Notification.id\<close> is declared \<open>UUID(as_uuid=False)\<close>, a column of the PostgreSQL
  type \<open>uuid\<close>: the insert of a row whose id is no uuid raises, and an id that is one is
  kept, compared and given back in the canonical spelling (lower case, hyphens after 8,
  12, 16 and 20 digits). Which other spellings of a uuid are taken depends on the database
  driver, so the gateway below takes the reading of the column from its environment.
  \<open>pg_uuid\<close> is the reading of PostgreSQL itself, used in the concrete runs: an optional
  pair of braces around sixteen bytes of two hexadecimal digits each, where a hyphen may
  follow every second byte but the last; \<open>uuid_bytes n src\<close> reads the last \<open>n\<close> of the
  sixteen bytes, and the result is the canonical spelling, or \<open>None\<close> for a text that
  is refused.
\<close>

definition isxdigit :: "char \<Rightarrow> bool" where
  "isxdigit c = (c \<in> set ''0123456789abcdefABCDEF'')"

definition tolower_hex :: "char \<Rightarrow> char" where
  "tolower_hex c = (case map_of (zip ''ABCDEF'' ''abcdef'') c of None \<Rightarrow> c | Some l \<Rightarrow> l)"

fun uuid_bytes :: "nat \<Rightarrow> string \<Rightarrow> (string \<times> string) option" where
  "uuid_bytes 0 src = Some ([], src)"
| "uuid_bytes (Suc n) (a # b # src) =
     (if isxdigit a \<and> isxdigit b
      then (case uuid_bytes n
                   (case src of
                      [] \<Rightarrow> src
                    | c # rest \<Rightarrow> if c = CHR ''-'' \<and> even n \<and> 0 < n then rest else src) of
              None \<Rightarrow> None
            | Some (digits, rest) \<Rightarrow> Some (tolower_hex a # tolower_hex b # digits, rest))
      else None)"
| "uuid_bytes (Suc n) src = None"

definition uuid_out :: "string \<Rightarrow> string" where
  "uuid_out digits =
     take 8 digits @ ''-'' @ take 4 (drop 8 digits) @ ''-'' @ take 4 (drop 12 digits) @ ''-'' @
     take 4 (drop 16 digits) @ ''-'' @ drop 20 digits"

definition pg_uuid :: "string \<Rightarrow> string option" where
  "pg_uuid source =
     (let braces = (source \<noteq> [] \<and> hd source = CHR ''{'');
          src = (if braces then tl source else source)
      in case uuid_bytes 16 src of
           None \<Rightarrow> None
         | Some (digits, rest) \<Rightarrow>
             if rest = (if braces then ''}'' else []) then Some (uuid_out digits) else None)"

section \<open>services/api\_gateway/main.py\<close>

text \<open>
  The state the gateway works on: the idempotency store, the table of notifications
  (keyed by the id in the canonical spelling PostgreSQL keeps, which is also the spelling
  the status endpoints below look a record up by), and a trace of the calls
  it makes to its collaborators (user service, template service, database insert,
  \<open>queue_manager.publish\<close> with routing key and message).
  \<open>gateway_env\<close> holds what one request meets: the UUID that \<open>uuid.uuid4()\<close> would
  give, the replies of the user and template services, the reading of the uuid column
  (the spelling a row is kept under, or the exception of the insert for a text that is
  refused), the exception the database raises for a second row with the same id, whether
  the commit of a row with a fresh id and the publish go through (the database may fail
  or refuse a row for other reasons), the clock and the \<open>SERVICE_TOKEN\<close> of the
  environment.
\<close>

datatype gateway_event =
    GetUser string
  | GetTemplate string
  | DbAdd string
  | QueuePublish string json

record gateway =
  redis :: redis_db
  db :: "string \<rightharpoonup> Notification"
  trace :: "gateway_event list"

record gateway_env =
  uuid4 :: string
  gw_get_user :: "string \<Rightarrow> json outcome"
  gw_get_template :: "string \<Rightarrow> json outcome"
  uuid_column :: "string \<Rightarrow> string outcome"
  duplicate_key :: py_exc
  db_commit :: "unit outcome"
  queue_publish :: "unit outcome"
  gw_now :: real
  gw_service_token :: string

definition log_call :: "gateway_event \<Rightarrow> gateway \<Rightarrow> gateway" where
  "log_call ev g = g\<lparr>trace := trace g @ [ev]\<rparr>"

text \<open>Every exception inside \<open>create_notification\<close> ends in its outer handler.\<close>

definition creation_failed :: "py_exc \<Rightarrow> ResponseModel" where
  "creation_failed e = error_response (exc_msg e) ''Failed to create notification''"

text \<open>\<open>create_notification\<close> from the comment \<open>Create notification record\<close> on: the
  insert (refused when the uuid column does not take the request id, and when a row with
  the same id exists), the publish, the idempotency entry and the reply. The row is written
  at the commit, so a failing publish leaves it in the table.\<close>

definition record_and_publish ::
  "gateway_env \<Rightarrow> NotificationRequest \<Rightarrow> string \<Rightarrow> gateway \<Rightarrow> ResponseModel \<times> gateway" where
  "record_and_publish env notification rid g =
     (let g1 = log_call (DbAdd rid) g in
      case uuid_column env rid of
        Raises e \<Rightarrow> (creation_failed e, g1)
      | Returns row_id \<Rightarrow>
      if db g1 row_id \<noteq> None
      then (creation_failed (duplicate_key env), g1)
      else
      (case db_commit env of
         Raises e \<Rightarrow> (creation_failed e, g1)
       | Returns u \<Rightarrow>
      (let db_notification =
             \<lparr>notif_id = row_id, notif_user_id = user_id notification,
              notif_type = NotificationType_value (notification_type notification),
              notif_template_code = template_code notification,
              notif_status = NotificationStatus_value pending,
              notif_priority = priority notification,
              notif_metadata = metadata notification,
              notif_error = None, notif_updated_at = None\<rparr>;
           g2 = g1\<lparr>db := (db g1)(row_id \<mapsto> db_notification)\<rparr>;
           msg = JObj [(''request_id'', JStr rid),
                       (''user_id'', JStr (user_id notification)),
                       (''template_code'', JStr (template_code notification)),
                       (''variables'', UserData_dict (variables notification)),
                       (''priority'', JInt (priority notification)),
                       (''metadata'', metadata notification)];
           routing_key = NotificationType_value (notification_type notification);
           g3 = log_call (QueuePublish routing_key msg) g2
       in case queue_publish env of
            Raises e \<Rightarrow> (creation_failed e, g3)
          | Returns u \<Rightarrow>
              (let result = [(''notification_id'', JStr rid), (''status'', JStr ''pending'')]
               in case check_and_store (redis g3) 3600 rid ''notification'' (JObj result) of
                    (cached, r) \<Rightarrow>
                      (success_response result ''Notification queued successfully'',
                       g3\<lparr>redis := r\<rparr>)))))"

text \<open>The validation of user and template, between the idempotency check and the
  insert.\<close>

definition validate_and_publish ::
  "gateway_env \<Rightarrow> NotificationRequest \<Rightarrow> string \<Rightarrow> gateway \<Rightarrow> ResponseModel \<times> gateway" where
  "validate_and_publish env notification rid g =
     (let g1 = log_call (GetUser (user_id notification)) g in
      case gw_get_user env (user_id notification) of
        Raises e \<Rightarrow> (creation_failed e, g1)
      | Returns user_data \<Rightarrow>
      if \<not> truthy user_data
      then (error_response ''User not found'' ''Notification creation failed'', g1)
      else
      (let g2 = log_call (GetTemplate (template_code notification)) g1 in
       case gw_get_template env (template_code notification) of
         Raises e \<Rightarrow> (creation_failed e, g2)
       | Returns template \<Rightarrow>
       if \<not> truthy template
       then (error_response ''Template not found'' ''Notification creation failed'', g2)
       else
       (case dict_get template ''notification_type'' JNull of
          Raises e \<Rightarrow> (creation_failed e, g2)
        | Returns t \<Rightarrow>
        if t \<noteq> JStr (NotificationType_value (notification_type notification))
        then (error_response
                (''Template type mismatch. Expected '' @
                   NotificationType_value (notification_type notification))
                ''Notification creation failed'', g2)
        else record_and_publish env notification rid g2)))"

text \<open>\<open>create_notification(notification, user_id)\<close>; \<open>auth_user_id\<close> is the user of
  the bearer token. The idempotency manager of the gateway has the default time to live
  of 3600 seconds.\<close>

definition create_notification ::
  "gateway_env \<Rightarrow> NotificationRequest \<Rightarrow> string \<Rightarrow> gateway \<Rightarrow> ResponseModel \<times> gateway" where
  "create_notification env notification auth_user_id g =
     (let rid = (case request_id notification of
                   None \<Rightarrow> uuid4 env
                 | Some r \<Rightarrow> if r \<noteq> [] then r else uuid4 env)
      in if user_id notification \<noteq> auth_user_id
         then (error_response ''Unauthorized: You can only create notifications for yourself''
                 ''Notification creation failed'', g)
         else if is_duplicate (redis g) rid ''notification''
         then (case check_and_store (redis g) 3600 rid ''notification'' (JObj []) of
                 (cached, r) \<Rightarrow>
                   if truthy cached
                   then (success_response
                           [(''notification_id'', JStr rid), (''status'', JStr ''pending'')]
                           ''Notification already processed (idempotent)'',
                         g\<lparr>redis := r\<rparr>)
                   else validate_and_publish env notification rid (g\<lparr>redis := r\<rparr>))
         else validate_and_publish env notification rid g)"

text \<open>\<open>update_notification_status_internal\<close>, the endpoint the consumers post their
  status reports to. A failing commit is rolled back and reported by the outer
  handler.\<close>

definition update_notification_status_internal ::
  "gateway_env \<Rightarrow> string \<Rightarrow> NotificationStatusUpdate \<Rightarrow> string option \<Rightarrow> gateway \<Rightarrow>
   ResponseModel \<times> gateway" where
  "update_notification_status_internal env notification_id upd x_service_token g =
     (if x_service_token \<noteq> Some (gw_service_token env)
      then (error_response ''Unauthorized'' ''Invalid service token'', g)
      else
      (case db g notification_id of
         None \<Rightarrow> (error_response ''Notification not found'' ''Status update failed'', g)
       | Some notification \<Rightarrow>
           (let updated = notification
                  \<lparr>notif_status := NotificationStatus_value (status upd),
                   notif_error := (case update_error upd of
                                     None \<Rightarrow> notif_error notification
                                   | Some err \<Rightarrow> if err \<noteq> [] then Some err
                                                 else notif_error notification),
                   notif_updated_at := Some (gw_now env)\<rparr>
            in case db_commit env of
                 Raises e \<Rightarrow> (error_response (exc_msg e) ''Failed to update status'', g)
               | Returns u \<Rightarrow>
                   (success_response
                      [(''notification_id'', JStr notification_id),
                       (''status'', JStr (NotificationStatus_value (status upd)))]
                      ''Status updated successfully'',
                    g\<lparr>db := (db g)(notification_id \<mapsto> updated)\<rparr>))))"

text \<open>\<open>update_notification_status\<close> of the gateway, the endpoint for users: the same
  update, allowed to the owner of the record instead of the holder of the service
  token.\<close>

definition gateway_update_notification_status ::
  "gateway_env \<Rightarrow> string \<Rightarrow> NotificationStatusUpdate \<Rightarrow> string \<Rightarrow> gateway \<Rightarrow>
   ResponseModel \<times> gateway" where
  "gateway_update_notification_status env notification_id upd auth_user_id g =
     (case db g notification_id of
        None \<Rightarrow> (error_response ''Notification not found'' ''Status update failed'', g)
      | Some notification \<Rightarrow>
          if notif_user_id notification \<noteq> auth_user_id
          then (error_response ''Unauthorized'' ''Access denied'', g)
          else
          (let updated = notification
                 \<lparr>notif_status := NotificationStatus_value (status upd),
                  notif_error := (case update_error upd of
                                    None \<Rightarrow> notif_error notification
                                  | Some err \<Rightarrow> if err \<noteq> [] then Some err
                                                else notif_error notification),
                  notif_updated_at := Some (gw_now env)\<rparr>
           in case db_commit env of
                Raises e \<Rightarrow> (error_response (exc_msg e) ''Failed to update status'', g)
              | Returns u \<Rightarrow>
                  (success_response
                     [(''notification_id'', JStr notification_id),
                      (''status'', JStr (NotificationStatus_value (status upd)))]
                     ''Status updated successfully'',
                   g\<lparr>db := (db g)(notification_id \<mapsto> updated)\<rparr>)))"

section \<open>Reading an event list\<close>

fun is_ack :: "event \<Rightarrow> bool" where
  "is_ack (BasicAck tag) = True"
| "is_ack other = False"

fun is_nack :: "event \<Rightarrow> bool" where
  "is_nack (BasicNack tag requeue) = True"
| "is_nack other = False"

fun is_publish :: "event \<Rightarrow> bool" where
  "is_publish (BasicPublish exchange routing_key body properties) = True"
| "is_publish other = False"

fun is_warning :: "event \<Rightarrow> bool" where
  "is_warning (LogWarning text) = True"
| "is_warning other = False"

section \<open>The states the gateway can reach\<close>

text \<open>
  The gateway starts with an empty idempotency store and an empty table. Its state
  changes by the three writing endpoints, called with any arguments in any environment,
  and by Redis dropping an idempotency entry whose time to live has run out.
\<close>

definition gateway_init :: gateway where
  "gateway_init = \<lparr>redis = Map.empty, db = Map.empty, trace = []\<rparr>"

inductive reachable :: "gateway \<Rightarrow> bool" where
  start: "reachable gateway_init"
| created: "reachable g \<Longrightarrow> reachable (snd (create_notification env n auth g))"
| reported: "reachable g \<Longrightarrow>
     reachable (snd (update_notification_status_internal env nid upd tok g))"
| updated: "reachable g \<Longrightarrow>
     reachable (snd (gateway_update_notification_status env nid upd auth g))"
| expired: "reachable g \<Longrightarrow> reachable (g\<lparr>redis := (redis g)(k := None)\<rparr>)"

section \<open>Concrete runs\<close>

text \<open>
  One user, one template, one request and an environment in which every collaborator
  answers and succeeds; the theorems below vary it field by field. \<open>sample_body\<close>
  stands for the JSON text of \<open>sample_message\<close>.
\<close>

definition sample_user :: json where
  "sample_user = JObj [(''email'', JStr ''ada@example.com''), (''push_token'', JStr ''token-1''),
                       (''email_enabled'', JBool True), (''push_enabled'', JBool True)]"

definition sample_message :: json where
  "sample_message = JObj [(''request_id'', JStr ''r-1''), (''user_id'', JStr ''u-1''),
                          (''template_code'', JStr ''welcome_email''),
                          (''variables'', JObj [(''name'', JStr ''Ada''), (''link'', JStr ''l'')]),
                          (''priority'', JInt 5), (''metadata'', JNull)]"

definition sample_body :: string where
  "sample_body = ''r-1 envelope''"

definition sample_env :: collaborators where
  "sample_env =
     \<lparr>json_loads = (\<lambda>body. Returns sample_message),
      py_str = (\<lambda>j. case j of JStr s \<Rightarrow> s | _ \<Rightarrow> ''None''),
      get_user = (\<lambda>uid. Returns sample_user),
      get_template = (\<lambda>code. Returns (JObj [(''code'', JStr ''welcome_email'')])),
      render_template = (\<lambda>code vars. Returns (JObj [(''subject'', JStr ''Welcome''),
                                                         (''body'', JStr ''Hello Ada'')])),
      sender_send = (\<lambda>args k. Returns (JBool True)),
      requests_post = (\<lambda>nid payload. Returns 200),
      service_token = ''internal-service-token'',
      time_call = 0,
      time_done = 0,
      push_update_notification_status = (\<lambda>nid st err. (Returns (), []))\<rparr>"

definition sample_breaker :: CircuitBreaker where
  "sample_breaker = CircuitBreaker_init 5 60 isinstance_Exception"

definition no_headers :: BasicProperties where
  "no_headers = \<lparr>headers = None, delivery_mode = Some 2, content_type = Some ''application/json''\<rparr>"

text \<open>The broker after the gateway and both consumers have made their declarations.\<close>

definition declared_broker :: broker where
  "declared_broker =
     PushConsumer_connect (EmailConsumer_connect (QueueManager_initialize empty_broker))"

definition sample_uuid :: string where
  "sample_uuid = ''123e4567-e89b-12d3-a456-426614174000''"

definition sample_request :: NotificationRequest where
  "sample_request =
     \<lparr>notification_type = NT_email, user_id = ''u-1'', template_code = ''welcome_email'',
      variables = \<lparr>name = ''Ada'', link = ''l'', meta = JNull\<rparr>,
      request_id = Some sample_uuid, priority = 5, metadata = JNull\<rparr>"

definition sample_gateway_env :: gateway_env where
  "sample_gateway_env =
     \<lparr>uuid4 = ''0b0e7a9c-5d1f-4c2e-9a3b-6f8d2e4c1a70'',
      gw_get_user = (\<lambda>uid. Returns sample_user),
      gw_get_template = (\<lambda>code. Returns (JObj [(''notification_type'', JStr ''email'')])),
      uuid_column = (\<lambda>text. case pg_uuid text of
                               None \<Rightarrow> Raises (PyExc ''DataError''
                                                 ''invalid input syntax for type uuid'')
                             | Some spelling \<Rightarrow> Returns spelling),
      duplicate_key = PyExc ''IntegrityError'' ''duplicate key value violates unique constraint'',
      db_commit = Returns (),
      queue_publish = Returns (),
      gw_now = 0,
      gw_service_token = ''internal-service-token''\<rparr>"

text \<open>The same environment with a user who has switched both channels off, with a user
  service that knows no such user, with a status endpoint that answers 500, and with a
  status endpoint that cannot be reached.\<close>

definition opted_out_env :: collaborators where
  "opted_out_env =
     sample_env\<lparr>get_user := (\<lambda>uid. Returns (JObj [(''email'', JStr ''ada@example.com''),
                                                      (''push_token'', JStr ''token-1''),
                                                      (''email_enabled'', JBool False),
                                                      (''push_enabled'', JBool False)]))\<rparr>"

definition user_missing_env :: collaborators where
  "user_missing_env = sample_env\<lparr>get_user := (\<lambda>uid. Returns JNull)\<rparr>"

definition status_500_env :: collaborators where
  "status_500_env = sample_env\<lparr>requests_post := (\<lambda>nid payload. Returns 500)\<rparr>"

definition status_down_env :: collaborators where
  "status_down_env =
     sample_env\<lparr>requests_post :=
       (\<lambda>nid payload. Raises (PyExc ''ConnectionError'' ''connection refused''))\<rparr>"

text \<open>The properties of a message that has been through three retries, and the declared
  broker with one message in \<open>email.queue\<close>: as the gateway publishes it, and with the
  retry count at 3.\<close>

definition exhausted :: BasicProperties where
  "exhausted = \<lparr>headers = Some [(''x-retry-count'', 3)], delivery_mode = Some 2,
                 content_type = Some ''application/json''\<rparr>"

definition broker_with_fresh_message :: broker where
  "broker_with_fresh_message = QueueManager_publish ''email'' sample_body declared_broker"

definition broker_with_exhausted_message :: broker where
  "broker_with_exhausted_message =
     set_queue ''email.queue'' [\<lparr>msg_properties = exhausted, msg_body = sample_body\<rparr>]
       declared_broker"

text \<open>A gateway environment whose user service knows no such user, and the request the
  demonstration script sends twice: the sample request under an id that is no uuid.\<close>

definition demo_request :: NotificationRequest where
  "demo_request = sample_request\<lparr>request_id := Some ''demo-idempotent-1700000000''\<rparr>"

definition no_user_gateway_env :: gateway_env where
  "no_user_gateway_env = sample_gateway_env\<lparr>gw_get_user := (\<lambda>uid. Returns JNull)\<rparr>"

text \<open>The gateway after the sample request has been admitted, and after the consumer
  has then reported it delivered.\<close>

definition admitted_gateway :: gateway where
  "admitted_gateway =
     snd (create_notification sample_gateway_env sample_request ''u-1'' gateway_init)"

definition delivered_gateway :: gateway where
  "delivered_gateway =
     snd (update_notification_status_internal sample_gateway_env sample_uuid
            \<lparr>status = delivered, timestamp = None, update_error = None\<rparr>
            (Some ''internal-service-token'') admitted_gateway)"

text \<open>The admitted gateway after Redis has dropped the idempotency entry of the sample
  request (its time to live has run out).\<close>

definition expired_gateway :: gateway where
  "expired_gateway =
     admitted_gateway\<lparr>redis := (redis admitted_gateway)
                                   (generate_key sample_uuid ''notification'' := None)\<rparr>"

text \<open>The declared broker with one message in \<open>push.queue\<close>, as the gateway publishes
  it.\<close>

definition broker_with_fresh_push_message :: broker where
  "broker_with_fresh_push_message = QueueManager_publish ''push'' sample_body declared_broker"

section \<open>Circuit breaker: properties\<close>

lemma call_closed_failure:
  assumes "state cb = CLOSED" and "expected_exception cb e"
  shows "call cb now (Raises e) t = (Raises e, on_failure t cb, Some CLOSED)"
  using assms by (simp add: call_def call_try_def)

lemma call_half_open_needs_counter:
  assumes "state cb = OPEN" and "last_failure_time cb = Some lf"
    and "now - lf > recovery_timeout cb" and "expected_exception cb e"
  shows "state (fst (snd (call cb now (Raises e) t))) =
           (if failure_count cb + 1 \<ge> failure_threshold cb then OPEN else HALF_OPEN)"
  using assms by (simp add: call_def call_try_def on_failure_def)

text \<open>
  C3. A breaker built with \<open>failure_threshold = 5\<close> and any recovery timeout \<open>T\<close> is
  still CLOSED after four consecutive failing calls and OPEN after the fifth, with the
  time of the fifth failure recorded. A further call at a time \<open>early\<close> with
  \<open>early - t5 \<le> T\<close> raises without invoking the operation (no invocation is recorded
  and the breaker is unchanged). A call at a time \<open>late\<close> with \<open>late - t5 > T\<close> invokes
  the operation with the breaker in HALF\_OPEN; if the operation returns, the breaker is
  CLOSED afterwards, and if it raises, the breaker is OPEN again with the new failure
  time.
\<close>

theorem circuit_breaker_transitions:
  fixes func :: "'a outcome"
  assumes four: "cb4 = calls (CircuitBreaker_init 5 T isinstance_Exception)
                   [(s1, Raises e1 :: 'a outcome, t1), (s2, Raises e2, t2),
                    (s3, Raises e3, t3), (s4, Raises e4, t4)]"
    and five: "cb5 = calls cb4 [(s5, Raises e5 :: 'a outcome, t5)]"
  shows "state cb4 = CLOSED \<and> state cb5 = OPEN \<and> last_failure_time cb5 = Some t5
    \<and> (early - t5 \<le> T \<longrightarrow>
          call cb5 early func t =
            (Raises (PyExc ''Exception'' ''Circuit breaker is OPEN - service unavailable''),
             cb5, None))
    \<and> (late - t5 > T \<longrightarrow>
          fst (call cb5 late (Returns r :: 'a outcome) t6) = Returns r
        \<and> snd (snd (call cb5 late (Returns r :: 'a outcome) t6)) = Some HALF_OPEN
        \<and> state (fst (snd (call cb5 late (Returns r :: 'a outcome) t6))) = CLOSED
        \<and> fst (call cb5 late (Raises e :: 'a outcome) t6) = Raises e
        \<and> snd (snd (call cb5 late (Raises e :: 'a outcome) t6)) = Some HALF_OPEN
        \<and> state (fst (snd (call cb5 late (Raises e :: 'a outcome) t6))) = OPEN
        \<and> last_failure_time (fst (snd (call cb5 late (Raises e :: 'a outcome) t6))) = Some t6)"
  unfolding four five
  by (simp add: call_def call_try_def on_failure_def on_success_def
        CircuitBreaker_init_def isinstance_Exception_def)

theorem circuit_breaker_transitions_witness:
  "call \<lparr>failure_threshold = 5, recovery_timeout = 60, expected_exception = isinstance_Exception,
         failure_count = 5, last_failure_time = Some 5, state = OPEN\<rparr>
        65 (Returns True) 65 =
     (Raises (PyExc ''Exception'' ''Circuit breaker is OPEN - service unavailable''),
      \<lparr>failure_threshold = 5, recovery_timeout = 60, expected_exception = isinstance_Exception,
         failure_count = 5, last_failure_time = Some 5, state = OPEN\<rparr>, None)
   \<and> state (fst (snd (call
        \<lparr>failure_threshold = 5, recovery_timeout = 60, expected_exception = isinstance_Exception,
         failure_count = 5, last_failure_time = Some 5, state = OPEN\<rparr>
        66 (Returns True) 66))) = CLOSED
   \<and> state (fst (snd (call
        \<lparr>failure_threshold = 5, recovery_timeout = 60, expected_exception = isinstance_Exception,
         failure_count = 5, last_failure_time = Some 5, state = OPEN\<rparr>
        66 (Raises (PyExc ''Exception'' ''smtp down'') :: bool outcome) 66))) = OPEN"
proof -
  let ?down = "Raises (PyExc ''Exception'' ''smtp down'') :: bool outcome"
  let ?cb4 = "\<lparr>failure_threshold = 5, recovery_timeout = 60,
      expected_exception = isinstance_Exception,
      failure_count = 4, last_failure_time = Some 4, state = CLOSED\<rparr>"
  let ?cb5 = "\<lparr>failure_threshold = 5, recovery_timeout = 60,
      expected_exception = isinstance_Exception,
      failure_count = 5, last_failure_time = Some 5, state = OPEN\<rparr>"
  have four: "?cb4 = calls (CircuitBreaker_init 5 60 isinstance_Exception)
                [(1, ?down, 1), (2, ?down, 2), (3, ?down, 3), (4, ?down, 4)]"
    by (simp add: call_def call_try_def on_failure_def CircuitBreaker_init_def
          isinstance_Exception_def)
  have five: "?cb5 = calls ?cb4 [(5, ?down, 5)]"
    by (simp add: call_def call_try_def on_failure_def isinstance_Exception_def)
  have early: "(65::real) - 5 \<le> 60" and late: "(66::real) - 5 > 60"
    by simp_all
  from circuit_breaker_transitions [OF four five,
      of 65 "Returns True" 65 66 True 66 "PyExc ''Exception'' ''smtp down''"] early late
  show ?thesis by simp
qed

text \<open>
  C6. Whenever the breaker is OPEN and the clock reading of the call is not more than
  \<open>recovery_timeout\<close> past \<open>last_failure_time\<close>, \<open>call\<close> raises at once (the generic
  \<open>Exception\<close> with the text \<open>Circuit breaker is OPEN - service unavailable\<close>, which is
  the circuit-open error of the code), the operation is not invoked, and the breaker is
  returned as it was: state, failure count and last failure time unchanged.
\<close>

theorem open_breaker_fails_fast:
  assumes "state cb = OPEN"
    and "last_failure_time cb = Some lf"
    and "now - lf \<le> recovery_timeout cb"
  shows "call cb now func t =
           (Raises (PyExc ''Exception'' ''Circuit breaker is OPEN - service unavailable''),
            cb, None)"
  using assms by (simp add: call_def)

theorem open_breaker_fails_fast_witness:
  "call \<lparr>failure_threshold = 5, recovery_timeout = 60, expected_exception = isinstance_Exception,
         failure_count = 5, last_failure_time = Some 100, state = OPEN\<rparr>
        160 (Returns True) 161 =
     (Raises (PyExc ''Exception'' ''Circuit breaker is OPEN - service unavailable''),
      \<lparr>failure_threshold = 5, recovery_timeout = 60, expected_exception = isinstance_Exception,
         failure_count = 5, last_failure_time = Some 100, state = OPEN\<rparr>, None)"
  using open_breaker_fails_fast
    [of "\<lparr>failure_threshold = 5, recovery_timeout = 60, expected_exception = isinstance_Exception,
         failure_count = 5, last_failure_time = Some 100, state = OPEN\<rparr>" 100 160 "Returns True" 161]
  by simp

text \<open>
  C7, as amended. When a failing call in CLOSED state brings the failure counter to
  \<open>failure_threshold\<close> (or beyond), the breaker goes to OPEN and records the time of
  that failure as \<open>last_failure_time\<close>. The failure counter is not reset: it keeps the
  value it has reached, and nothing else of the breaker changes.
\<close>

theorem threshold_failure_opens_breaker:
  assumes "state cb = CLOSED"
    and "expected_exception cb e"
    and "failure_count cb + 1 \<ge> failure_threshold cb"
  shows "call cb now (Raises e) t =
           (Raises e,
            cb\<lparr>failure_count := failure_count cb + 1, last_failure_time := Some t, state := OPEN\<rparr>,
            Some CLOSED)"
  using assms by (simp add: call_def call_try_def on_failure_def)

theorem threshold_failure_opens_breaker_witness:
  "call \<lparr>failure_threshold = 5, recovery_timeout = 60, expected_exception = isinstance_Exception,
         failure_count = 4, last_failure_time = Some 90, state = CLOSED\<rparr>
        100 (Raises (PyExc ''Exception'' ''smtp down'') :: bool outcome) 101 =
     (Raises (PyExc ''Exception'' ''smtp down''),
      \<lparr>failure_threshold = 5, recovery_timeout = 60, expected_exception = isinstance_Exception,
         failure_count = 5, last_failure_time = Some 101, state = OPEN\<rparr>, Some CLOSED)"
  using threshold_failure_opens_breaker
    [of "\<lparr>failure_threshold = 5, recovery_timeout = 60, expected_exception = isinstance_Exception,
         failure_count = 4, last_failure_time = Some 90, state = CLOSED\<rparr>"
        "PyExc ''Exception'' ''smtp down''" 100 101]
  by (simp add: isinstance_Exception_def)

text \<open>
  C7 as stated fails: after the fifth consecutive failure of a breaker with threshold 5
  the breaker is OPEN and its failure counter is 5, not 0.
\<close>

theorem counter_reset_on_open_counterexample:
  "state (calls (CircuitBreaker_init 5 60 isinstance_Exception)
            [(1, Raises (PyExc ''Exception'' ''smtp down'') :: bool outcome, 1),
             (2, Raises (PyExc ''Exception'' ''smtp down''), 2),
             (3, Raises (PyExc ''Exception'' ''smtp down''), 3),
             (4, Raises (PyExc ''Exception'' ''smtp down''), 4),
             (5, Raises (PyExc ''Exception'' ''smtp down''), 5)]) = OPEN
   \<and> failure_count (calls (CircuitBreaker_init 5 60 isinstance_Exception)
            [(1, Raises (PyExc ''Exception'' ''smtp down'') :: bool outcome, 1),
             (2, Raises (PyExc ''Exception'' ''smtp down''), 2),
             (3, Raises (PyExc ''Exception'' ''smtp down''), 3),
             (4, Raises (PyExc ''Exception'' ''smtp down''), 4),
             (5, Raises (PyExc ''Exception'' ''smtp down''), 5)]) \<noteq> 0"
  by (simp add: call_def call_try_def on_failure_def CircuitBreaker_init_def
        isinstance_Exception_def)

section \<open>Retry wrapper: properties\<close>

lemma upt_0_Suc_map: "[0..<Suc r] = 0 # map Suc [0..<r]"
  by (simp add: upt_conv_Cons map_Suc_upt del: upt_Suc)

lemma retry_loop_all_fail:
  assumes b: "0 \<le> b" and md: "0 \<le> md"
    and fails: "\<forall>k. int k \<le> n \<longrightarrow> func k = Raises (e k) \<and> exceptions (e k)"
  shows "0 \<le> delay \<Longrightarrow> int r \<le> n \<Longrightarrow>
     retry_loop n md b exceptions func (Suc r) (n - int r) delay le =
       (Raises (e (nat n)), map (\<lambda>i. min (delay * b ^ i) md) [0..<r], Suc r)"
proof (induction r arbitrary: delay le)
  case 0
  then have "func (nat n) = Raises (e (nat n)) \<and> exceptions (e (nat n))"
    using fails by simp
  then show ?case by simp
next
  case (Suc r)
  have k: "int (nat (n - int (Suc r))) \<le> n" using Suc.prems by simp
  have f: "func (nat (n - int (Suc r))) = Raises (e (nat (n - int (Suc r))))"
      "exceptions (e (nat (n - int (Suc r))))"
    using fails k by blast+
  have d: "0 \<le> delay * b" using Suc.prems b by simp
  have r: "int r \<le> n" using Suc.prems by simp
  have a: "n - int (Suc r) + 1 = n - int r" by simp
  have m: "\<not> min delay md < 0" using Suc.prems md by simp
  have lt: "n - int (Suc r) < n" by simp
  have IH: "retry_loop n md b exceptions func (Suc r) (n - int r) (delay * b)
              (Some (e (nat (n - int (Suc r))))) =
       (Raises (e (nat n)), map (\<lambda>i. min (delay * b * b ^ i) md) [0..<r], Suc r)"
    by (rule Suc.IH[OF d r])
  have "retry_loop n md b exceptions func (Suc (Suc r)) (n - int (Suc r)) delay le =
     (Raises (e (nat n)), min delay md # map (\<lambda>i. min (delay * b * b ^ i) md) [0..<r],
      Suc (Suc r))"
    apply (subst retry_loop.simps(2))
    apply (simp only: f outcome.case if_True lt m if_False a IH prod.case)
    apply simp
    done
  then show ?case
    by (simp add: upt_0_Suc_map[of r] o_def mult.assoc del: upt_Suc retry_loop.simps)
qed

lemma retry_loop_invocations:
  "snd (snd (retry_loop n md b exceptions func r attempt delay le)) \<le> r"
proof (induction r arbitrary: attempt delay le)
  case 0
  show ?case by (simp split: option.splits)
next
  case (Suc r)
  show ?case
  proof (cases "func (nat attempt)")
    case (Returns v)
    then show ?thesis by simp
  next
    case (Raises e)
    obtain res sl k where rl:
      "retry_loop n md b exceptions func r (attempt + 1) (delay * b) (Some e) = (res, sl, k)"
      by (rule prod_cases3)
    have "k \<le> r"
      using Suc.IH[of "attempt + 1" "delay * b" "Some e"] rl by simp
    then show ?thesis using Raises rl by simp
  qed
qed

text \<open>
  C5. For \<open>max_retries = n \<ge> 0\<close> and non-negative \<open>initial_delay = d0\<close>,
  \<open>exponential_base = b\<close> and \<open>max_delay = md\<close> (delays that \<open>time.sleep\<close> accepts),
  the wrapper invokes the operation at most \<open>n + 1\<close> times, whatever the operation
  does. When every attempt raises an exception the wrapper retries on, it invokes the
  operation exactly \<open>n + 1\<close> times, sleeps \<open>min (d0 * b ^ (i - 1)) md\<close> between attempt
  \<open>i\<close> and attempt \<open>i + 1\<close> for \<open>i = 1, \<dots>, n\<close>, and raises the exception of the last
  attempt.
\<close>

theorem retry_with_backoff_contract:
  assumes "0 \<le> n" and "0 \<le> d0" and "0 \<le> b" and "0 \<le> md"
  shows "snd (snd (retry_with_backoff n d0 md b exceptions func)) \<le> nat (n + 1) \<and>
    ((\<forall>k. int k \<le> n \<longrightarrow> func k = Raises (e k) \<and> exceptions (e k)) \<longrightarrow>
       retry_with_backoff n d0 md b exceptions func =
         (Raises (e (nat n)), map (\<lambda>i. min (d0 * b ^ i) md) [0..<nat n], nat n + 1))"
proof -
  have bound: "snd (snd (retry_with_backoff n d0 md b exceptions func)) \<le> nat (n + 1)"
    unfolding retry_with_backoff_def by (rule retry_loop_invocations)
  have n1: "nat (n + 1) = Suc (nat n)" using assms(1) by simp
  have n0: "int (nat n) \<le> n" "n - int (nat n) = 0" using assms(1) by simp_all
  have "retry_with_backoff n d0 md b exceptions func =
         (Raises (e (nat n)), map (\<lambda>i. min (d0 * b ^ i) md) [0..<nat n], nat n + 1)"
    if fails: "\<forall>k. int k \<le> n \<longrightarrow> func k = Raises (e k) \<and> exceptions (e k)"
    using retry_loop_all_fail[OF assms(3) assms(4) fails assms(2) n0(1), of None]
    unfolding retry_with_backoff_def n1 n0(2) by simp
  with bound show ?thesis by blast
qed

text \<open>The instance of the spec: \<open>initial_delay = 1.0\<close>, \<open>exponential_base = 2.0\<close>,
  \<open>max_retries = 3\<close> (and the default \<open>max_delay = 60.0\<close>); the \<open>k\<close>-th attempt fails
  with its own message. Four attempts, delays 1, 2 and 4, and the fourth exception.\<close>

theorem retry_with_backoff_contract_witness:
  "retry_with_backoff 3 1 60 2 isinstance_Exception
     (\<lambda>k. Raises (PyExc ''Exception'' (replicate k CHR ''x'')) :: bool outcome) =
   (Raises (PyExc ''Exception'' ''xxx''), [1, 2, 4], 4)"
  using retry_with_backoff_contract [of 3 1 2 60 isinstance_Exception
      "\<lambda>k. Raises (PyExc ''Exception'' (replicate k CHR ''x'')) :: bool outcome"
      "\<lambda>k. PyExc ''Exception'' (replicate k CHR ''x'')"]
  by (simp add: isinstance_Exception_def eval_nat_numeral upt_0_Suc_map del: upt_Suc)

section \<open>Consumers: properties\<close>

lemmas consumer_unfold =
  EmailConsumer_process_message_def email_try_def email_deliver_def
  PushConsumer_process_message_def push_try_def push_deliver_def

lemmas sample_unfold =
  sample_env_def sample_user_def sample_message_def sample_body_def sample_breaker_def
  user_missing_env_def no_headers_def CircuitBreaker_init_def isinstance_Exception_def

lemmas run_unfold =
  send_email_def send_push_def email_report_failed_def push_report_failed_def
  update_notification_status_def retry_or_dead_letter_def retry_count_of_def
  call_def call_try_def on_success_def on_failure_def retry_with_backoff_def Let_def

lemma send_email_events:
  "filter is_ack (snd (send_email env user_data rendered)) = []"
  "filter is_nack (snd (send_email env user_data rendered)) = []"
  "filter is_publish (snd (send_email env user_data rendered)) = []"
  "filter is_warning (snd (send_email env user_data rendered)) = []"
  by (simp_all add: send_email_def split: outcome.splits prod.splits)

lemma update_notification_status_events:
  "filter is_ack (update_notification_status env nid st err) = []"
  "filter is_nack (update_notification_status env nid st err) = []"
  "filter is_publish (update_notification_status env nid st err) = []"
  by (simp_all add: update_notification_status_def Let_def split: outcome.splits)

text \<open>
  C8, as amended. When the fetched user profile has the message's channel switched off,
  the consumer acknowledges the message and returns: that single \<open>basic_ack\<close> is its
  only effect, so nothing is sent, no status is reported, and no retry-or-DLQ decision is
  taken; the circuit breaker and the message properties are untouched. For the email
  consumer this needs a profile with an email address (the address is checked first);
  for the push consumer any non-empty profile.
\<close>

theorem disabled_channel_is_acknowledged:
  assumes loads: "json_loads env body = Returns msg"
    and rid: "dict_get msg ''request_id'' (JStr ''unknown'') = Returns rid"
    and uid: "dict_get msg ''user_id'' JNull = Returns uid"
    and user: "get_user env uid = Returns user_data"
    and found: "truthy user_data"
  shows "(dict_get user_data ''email'' JNull = Returns address \<and> truthy address \<and>
          dict_get user_data ''email_enabled'' (JBool True) = Returns enabled \<and> \<not> truthy enabled
            \<longrightarrow> EmailConsumer_process_message env cb tag props body = ([BasicAck tag], cb, props))
       \<and> (dict_get user_data ''push_enabled'' (JBool True) = Returns enabled \<and> \<not> truthy enabled
            \<longrightarrow> PushConsumer_process_message env cb tag props body = ([BasicAck tag], cb, props))"
  using assms by (simp add: consumer_unfold)

theorem disabled_channel_is_acknowledged_witness:
  "EmailConsumer_process_message opted_out_env sample_breaker 1 no_headers sample_body =
     ([BasicAck 1], sample_breaker, no_headers)
   \<and> PushConsumer_process_message opted_out_env sample_breaker 1 no_headers sample_body =
     ([BasicAck 1], sample_breaker, no_headers)"
proof -
  let ?profile = "JObj [(''email'', JStr ''ada@example.com''), (''push_token'', JStr ''token-1''),
                        (''email_enabled'', JBool False), (''push_enabled'', JBool False)]"
  have loads: "json_loads opted_out_env sample_body = Returns sample_message"
    by (simp add: sample_unfold opted_out_env_def)
  have rid: "dict_get sample_message ''request_id'' (JStr ''unknown'') = Returns (JStr ''r-1'')"
    by (simp add: sample_unfold)
  have uid: "dict_get sample_message ''user_id'' JNull = Returns (JStr ''u-1'')"
    by (simp add: sample_unfold)
  have user: "get_user opted_out_env (JStr ''u-1'') = Returns ?profile"
    by (simp add: sample_unfold opted_out_env_def)
  have found: "truthy ?profile" by simp
  have email: "dict_get ?profile ''email'' JNull = Returns (JStr ''ada@example.com'')
      \<and> truthy (JStr ''ada@example.com'')
      \<and> dict_get ?profile ''email_enabled'' (JBool True) = Returns (JBool False)
      \<and> \<not> truthy (JBool False)"
    by simp
  have push: "dict_get ?profile ''push_enabled'' (JBool True) = Returns (JBool False)
      \<and> \<not> truthy (JBool False)"
    by simp
  from disabled_channel_is_acknowledged [OF loads rid uid user found,
      of "JStr ''ada@example.com''" "JBool False" sample_breaker 1 no_headers] email push
  show ?thesis by blast
qed

text \<open>
  C8 as stated fails: for a user who has switched email off, the email consumer reports
  nothing and does not nack; its only effect is the acknowledgement.
\<close>

theorem disabled_channel_counterexample:
  "fst (EmailConsumer_process_message opted_out_env sample_breaker 1 no_headers sample_body)
     = [BasicAck 1]"
  by (simp add: consumer_unfold sample_unfold opted_out_env_def)
text \<open>
  C9, as amended. When an email passes validation and rendering and the send through
  the circuit breaker returns a true result, the consumer's effects are: the send, one
  POST of the status \<open>delivered\<close>, a warning in the log exactly when that POST raised,
  and one \<open>basic_ack\<close>. So the message is acknowledged exactly once, with no nack and
  no publish, whatever the status endpoint answers; an exception of the POST is logged
  and swallowed, and a reply with any status code is dropped without being logged.
\<close>

theorem delivered_is_acked_whatever_the_report:
  assumes loads: "json_loads env body = Returns msg"
    and rid: "dict_get msg ''request_id'' (JStr ''unknown'') = Returns rid"
    and uid: "dict_get msg ''user_id'' JNull = Returns uid"
    and user: "get_user env uid = Returns user_data" "truthy user_data"
    and address: "dict_get user_data ''email'' JNull = Returns address" "truthy address"
    and enabled: "dict_get user_data ''email_enabled'' (JBool True) = Returns enabled"
                 "truthy enabled"
    and code: "dict_get msg ''template_code'' JNull = Returns code"
    and template: "get_template env code = Returns template" "truthy template"
    and vars: "dict_get msg ''variables'' (JObj []) = Returns vars"
    and rendered: "render_template env code vars = Returns rendered" "truthy rendered"
    and sent: "call cb (time_call env) (fst (send_email env user_data rendered)) (time_done env)
                 = (Returns result, cb', Some st)" "truthy result"
  shows "EmailConsumer_process_message env cb tag props body =
           (snd (send_email env user_data rendered)
              @ RequestsPost rid [(''status'', JStr ''delivered'')] (service_token env)
              # (case requests_post env rid [(''status'', JStr ''delivered'')] of
                   Returns reply \<Rightarrow> []
                 | Raises x \<Rightarrow> [LogWarning (''Failed to update status: '' @ exc_msg x)])
              @ [BasicAck tag],
            cb', props)
       \<and> length (filter is_ack (fst (EmailConsumer_process_message env cb tag props body))) = 1
       \<and> filter is_nack (fst (EmailConsumer_process_message env cb tag props body)) = []
       \<and> filter is_publish (fst (EmailConsumer_process_message env cb tag props body)) = []"
proof -
  have run: "EmailConsumer_process_message env cb tag props body =
           (snd (send_email env user_data rendered)
              @ RequestsPost rid [(''status'', JStr ''delivered'')] (service_token env)
              # (case requests_post env rid [(''status'', JStr ''delivered'')] of
                   Returns reply \<Rightarrow> []
                 | Raises x \<Rightarrow> [LogWarning (''Failed to update status: '' @ exc_msg x)])
              @ [BasicAck tag],
            cb', props)"
    using assms
    by (simp add: EmailConsumer_process_message_def email_try_def email_deliver_def
          update_notification_status_def Let_def)
  show ?thesis
    unfolding run by (simp add: send_email_events split: outcome.splits)
qed

theorem delivered_is_acked_whatever_the_report_witness:
  "EmailConsumer_process_message status_down_env sample_breaker 1 no_headers sample_body =
     ([SenderSend [JStr ''ada@example.com'', JStr ''Welcome'', JStr ''Hello Ada''] 1 [],
       RequestsPost (JStr ''r-1'') [(''status'', JStr ''delivered'')] ''internal-service-token'',
       LogWarning ''Failed to update status: connection refused'',
       BasicAck 1],
      sample_breaker, no_headers)"
proof -
  let ?rendered = "JObj [(''subject'', JStr ''Welcome''), (''body'', JStr ''Hello Ada'')]"
  note sample_unfold = sample_unfold status_down_env_def
  have loads: "json_loads status_down_env sample_body = Returns sample_message"
    by (simp add: sample_unfold)
  have rid: "dict_get sample_message ''request_id'' (JStr ''unknown'') = Returns (JStr ''r-1'')"
    and uid: "dict_get sample_message ''user_id'' JNull = Returns (JStr ''u-1'')"
    and code: "dict_get sample_message ''template_code'' JNull = Returns (JStr ''welcome_email'')"
    and vars: "dict_get sample_message ''variables'' (JObj []) =
                 Returns (JObj [(''name'', JStr ''Ada''), (''link'', JStr ''l'')])"
    by (simp_all add: sample_unfold)
  have user: "get_user status_down_env (JStr ''u-1'') = Returns sample_user" "truthy sample_user"
    and address: "dict_get sample_user ''email'' JNull = Returns (JStr ''ada@example.com'')"
                 "truthy (JStr ''ada@example.com'')"
    and enabled: "dict_get sample_user ''email_enabled'' (JBool True) = Returns (JBool True)"
                 "truthy (JBool True)"
    by (simp_all add: sample_unfold)
  have template: "get_template status_down_env (JStr ''welcome_email'') =
                    Returns (JObj [(''code'', JStr ''welcome_email'')])"
                 "truthy (JObj [(''code'', JStr ''welcome_email'')])"
    and rendered: "render_template status_down_env (JStr ''welcome_email'')
                     (JObj [(''name'', JStr ''Ada''), (''link'', JStr ''l'')]) = Returns ?rendered"
                  "truthy ?rendered"
    by (simp_all add: sample_unfold)
  have send: "send_email status_down_env sample_user ?rendered =
     (Returns (JBool True),
      [SenderSend [JStr ''ada@example.com'', JStr ''Welcome'', JStr ''Hello Ada''] 1 []])"
    by (simp add: sample_unfold send_email_def retry_with_backoff_def eval_nat_numeral)
  have sent: "call sample_breaker (time_call status_down_env)
                (fst (send_email status_down_env sample_user ?rendered))
                (time_done status_down_env) = (Returns (JBool True), sample_breaker, Some CLOSED)"
             "truthy (JBool True)"
    unfolding send by (simp_all add: sample_unfold call_def call_try_def on_success_def)
  have post: "requests_post status_down_env (JStr ''r-1'') [(''status'', JStr ''delivered'')] =
                Raises (PyExc ''ConnectionError'' ''connection refused'')"
             "service_token status_down_env = ''internal-service-token''"
    by (simp_all add: sample_unfold)
  from delivered_is_acked_whatever_the_report [OF loads rid uid user address enabled code
      template vars rendered sent, of 1 no_headers]
  show ?thesis unfolding send post by simp
qed

text \<open>
  C9 as stated fails in one part: when the status endpoint answers 500, the delivered
  message is acknowledged once, but the failure of the report is not logged.
\<close>

theorem unlogged_report_failure_counterexample:
  "filter is_warning
     (fst (EmailConsumer_process_message status_500_env sample_breaker 1 no_headers sample_body))
     = []
   \<and> filter is_ack
     (fst (EmailConsumer_process_message status_500_env sample_breaker 1 no_headers sample_body))
     = [BasicAck 1]"
  by (simp add: consumer_unfold sample_unfold status_500_env_def run_unfold eval_nat_numeral)
section \<open>Retry and dead-lettering through the broker\<close>

lemmas broker_unfold =
  declared_broker_def PushConsumer_connect_def EmailConsumer_connect_def
  QueueManager_initialize_def QueueManager_publish_def empty_broker_def
  queue_declare_def queue_bind_def exchange_declare_def basic_publish_def route_def
  set_queue_def queue_content_def consume_def

text \<open>What the retry decision does in one call, for every delivery tag, properties and
  body: below three retries it requeues and writes the incremented count to the local
  properties; from three on it rejects and publishes the body, unchanged, once, to the
  exchange \<open>notifications.direct\<close> with routing key \<open>failed\<close>.\<close>

lemma retry_or_dead_letter_below_limit:
  assumes "retry_count_of props < 3"
  shows "fst (retry_or_dead_letter tag props body) = [BasicNack tag True]"
    and "retry_count_of (snd (retry_or_dead_letter tag props body)) = retry_count_of props + 1"
  using assms
  by (auto simp add: retry_or_dead_letter_def retry_count_of_def Let_def update_conv
        update_Some_unfold split: option.splits)

lemma retry_or_dead_letter_at_limit:
  assumes "retry_count_of props \<ge> 3"
  shows "retry_or_dead_letter tag props body =
           ([BasicNack tag False,
             BasicPublish ''notifications.direct'' ''failed'' body
               \<lparr>headers = None, delivery_mode = Some 2, content_type = None\<rparr>], props)"
  using assms by (simp add: retry_or_dead_letter_def Let_def)

lemma failing_delivery_is_a_fixed_point:
  "consume (EmailConsumer_process_message user_missing_env) ''email.queue''
     (broker_with_fresh_message, sample_breaker) = (broker_with_fresh_message, sample_breaker)"
  by (simp add: broker_with_fresh_message_def broker_unfold consumer_unfold sample_unfold
        run_unfold)

lemma failing_push_delivery_is_a_fixed_point:
  "consume (PushConsumer_process_message user_missing_env) ''push.queue''
     (broker_with_fresh_push_message, sample_breaker) =
     (broker_with_fresh_push_message, sample_breaker)"
  by (simp add: broker_with_fresh_push_message_def broker_unfold consumer_unfold sample_unfold
        run_unfold)

text \<open>
  C1, the code at a failing input. The gateway has published one message to
  \<open>email.queue\<close> (no headers) and the user service knows no such user, so every
  processing attempt fails. In its callback the consumer reads a retry count of 0, writes
  1 to its local copy of the properties and nacks with requeue; the broker requeues the
  message it holds, whose headers nobody has changed. So after any number \<open>k\<close> of
  deliveries the broker is as before the first: the message is at the head of
  \<open>email.queue\<close> without a retry count, and \<open>failed.queue\<close> is empty. The count never
  passes 0 at the broker and the fourth failure requeues like the first.
\<close>

theorem retry_count_is_lost_on_requeue:
  "((consume (EmailConsumer_process_message user_missing_env) ''email.queue'') ^^ k)
      (broker_with_fresh_message, sample_breaker) = (broker_with_fresh_message, sample_breaker)
   \<and> queue_content broker_with_fresh_message ''email.queue'' =
       [\<lparr>msg_properties = no_headers, msg_body = sample_body\<rparr>]
   \<and> queue_content broker_with_fresh_message ''failed.queue'' = []
   \<and> EmailConsumer_process_message user_missing_env sample_breaker 1 no_headers sample_body =
       ([RequestsPost (JStr ''r-1'')
           [(''status'', JStr ''failed''),
            (''error'', JStr ''User u-1 not found or has no email'')]
           ''internal-service-token'',
         BasicNack 1 True],
        sample_breaker,
        no_headers\<lparr>headers := Some [(''x-retry-count'', 1)]\<rparr>)"
proof -
  have "((consume (EmailConsumer_process_message user_missing_env) ''email.queue'') ^^ k)
      (broker_with_fresh_message, sample_breaker) = (broker_with_fresh_message, sample_breaker)"
    by (induction k) (simp_all add: failing_delivery_is_a_fixed_point)
  moreover have "queue_content broker_with_fresh_message ''email.queue'' =
       [\<lparr>msg_properties = no_headers, msg_body = sample_body\<rparr>]"
    by (simp add: broker_with_fresh_message_def broker_unfold sample_unfold)
  moreover have "queue_content broker_with_fresh_message ''failed.queue'' = []"
    by (simp add: broker_with_fresh_message_def broker_unfold sample_unfold)
  moreover have "EmailConsumer_process_message user_missing_env sample_breaker 1 no_headers sample_body =
       ([RequestsPost (JStr ''r-1'')
           [(''status'', JStr ''failed''),
            (''error'', JStr ''User u-1 not found or has no email'')]
           ''internal-service-token'',
         BasicNack 1 True],
        sample_breaker,
        no_headers\<lparr>headers := Some [(''x-retry-count'', 1)]\<rparr>)"
    by (simp add: consumer_unfold sample_unfold run_unfold)
  ultimately show ?thesis by blast
qed

text \<open>
  C2, the code at a failing input. No call of \<open>QueueManager.initialize\<close> or of either
  \<open>connect\<close> binds \<open>failed.queue\<close> to the exchange, so the routing key \<open>failed\<close> leads
  to no queue. A failing message that arrives with a retry count of 3 is rejected without
  requeue and republished, body unchanged, to \<open>notifications.direct\<close> with that key;
  afterwards it is in no queue at all: the broker is back to its declared, empty state
  and \<open>failed.queue\<close> is empty.
\<close>

theorem dead_letter_publish_is_unroutable:
  "route declared_broker ''notifications.direct'' ''failed'' = []
   \<and> fst (EmailConsumer_process_message user_missing_env sample_breaker 1 exhausted sample_body) =
       [RequestsPost (JStr ''r-1'')
          [(''status'', JStr ''failed''),
           (''error'', JStr ''User u-1 not found or has no email'')]
          ''internal-service-token'',
        BasicNack 1 False,
        BasicPublish ''notifications.direct'' ''failed'' sample_body
          \<lparr>headers = None, delivery_mode = Some 2, content_type = None\<rparr>]
   \<and> queue_content broker_with_exhausted_message ''email.queue'' =
       [\<lparr>msg_properties = exhausted, msg_body = sample_body\<rparr>]
   \<and> fst (consume (EmailConsumer_process_message user_missing_env) ''email.queue''
            (broker_with_exhausted_message, sample_breaker)) = declared_broker
   \<and> queue_content declared_broker ''email.queue'' = []
   \<and> queue_content declared_broker ''failed.queue'' = []"
proof -
  have "route declared_broker ''notifications.direct'' ''failed'' = []"
    by (simp add: broker_unfold)
  moreover have "fst (EmailConsumer_process_message user_missing_env sample_breaker 1 exhausted sample_body) =
       [RequestsPost (JStr ''r-1'')
          [(''status'', JStr ''failed''),
           (''error'', JStr ''User u-1 not found or has no email'')]
          ''internal-service-token'',
        BasicNack 1 False,
        BasicPublish ''notifications.direct'' ''failed'' sample_body
          \<lparr>headers = None, delivery_mode = Some 2, content_type = None\<rparr>]"
    by (simp add: consumer_unfold sample_unfold exhausted_def run_unfold)
  moreover have "queue_content broker_with_exhausted_message ''email.queue'' =
       [\<lparr>msg_properties = exhausted, msg_body = sample_body\<rparr>]"
    by (simp add: broker_with_exhausted_message_def broker_unfold)
  moreover have "fst (consume (EmailConsumer_process_message user_missing_env) ''email.queue''
            (broker_with_exhausted_message, sample_breaker)) = declared_broker"
    by (simp add: broker_with_exhausted_message_def exhausted_def broker_unfold
          consumer_unfold sample_unfold run_unfold)
  moreover have "queue_content declared_broker ''email.queue'' = []"
    "queue_content declared_broker ''failed.queue'' = []"
    by (simp_all add: broker_unfold)
  ultimately show ?thesis by blast
qed
section \<open>Gateway: properties\<close>

lemma error_response_fails [simp]:
  "\<not> success (error_response err msg)" "\<not> success (creation_failed e)"
  by (simp_all add: error_response_def creation_failed_def)

lemma check_and_store_present:
  "r (generate_key rid svc) = Some (t, v) \<Longrightarrow> check_and_store r ttl rid svc res = (v, r)"
  by (simp add: check_and_store_def)

lemma check_and_store_absent:
  "r (generate_key rid svc) = None \<Longrightarrow>
     check_and_store r ttl rid svc res = (JNull, r(generate_key rid svc \<mapsto> (ttl, res)))"
  by (simp add: check_and_store_def)

lemma check_and_store_values:
  assumes "snd (check_and_store r ttl rid svc res) key = Some (t, v)"
  shows "r key = Some (t, v) \<or> v = res"
  using assms by (auto simp add: check_and_store_def Let_def split: option.splits if_splits)

lemma log_call_redis [simp]: "redis (log_call ev g) = redis g"
  by (simp add: log_call_def)

lemma log_call_db [simp]: "db (log_call ev g) = db g"
  by (simp add: log_call_def)

lemma record_and_publish_redis:
  "redis (snd (record_and_publish env n rid g)) = redis g \<or>
   redis (snd (record_and_publish env n rid g)) =
     snd (check_and_store (redis g) 3600 rid ''notification''
            (JObj [(''notification_id'', JStr rid), (''status'', JStr ''pending'')]))"
  by (auto simp add: record_and_publish_def Let_def
        split: option.splits outcome.splits prod.splits)

lemma record_and_publish_values:
  assumes "redis (snd (record_and_publish env n rid g)) key = Some (t, v)"
  shows "redis g key = Some (t, v) \<or> truthy v"
  using assms record_and_publish_redis[of env n rid g]
    check_and_store_values[of "redis g" 3600 rid "''notification''"
      "JObj [(''notification_id'', JStr rid), (''status'', JStr ''pending'')]" key t v]
  by auto

lemma validate_and_publish_steps:
  "snd (validate_and_publish env n rid g) = log_call (GetUser (user_id n)) g \<or>
   snd (validate_and_publish env n rid g) =
     log_call (GetTemplate (template_code n)) (log_call (GetUser (user_id n)) g) \<or>
   snd (validate_and_publish env n rid g) =
     snd (record_and_publish env n rid
            (log_call (GetTemplate (template_code n)) (log_call (GetUser (user_id n)) g)))"
  by (simp add: validate_and_publish_def Let_def split: outcome.splits)

lemma validate_and_publish_values:
  assumes "redis (snd (validate_and_publish env n rid g)) key = Some (t, v)"
  shows "redis g key = Some (t, v) \<or> truthy v"
  using assms validate_and_publish_steps[of env n rid g]
    record_and_publish_values[of env n rid
      "log_call (GetTemplate (template_code n)) (log_call (GetUser (user_id n)) g)" key t v]
  by auto

lemma create_notification_steps:
  "snd (create_notification env n auth g) = g \<or>
   (\<exists>rid. snd (create_notification env n auth g) = snd (validate_and_publish env n rid g))"
  by (auto simp add: create_notification_def is_duplicate_def check_and_store_def Let_def
        split: option.splits prod.splits)

lemma create_notification_values:
  assumes "redis (snd (create_notification env n auth g)) key = Some (t, v)"
  shows "redis g key = Some (t, v) \<or> truthy v"
  using assms create_notification_steps[of env n auth g] validate_and_publish_values
  by metis

lemma reachable_cache_truthy:
  "reachable g \<Longrightarrow> redis g key = Some (t, v) \<Longrightarrow> truthy v"
proof (induction arbitrary: key t v rule: reachable.induct)
  case start
  then show ?case by (simp add: gateway_init_def)
next
  case (created g env n auth)
  then show ?case using create_notification_values by blast
next
  case (reported g env nid upd tok)
  have "redis (snd (update_notification_status_internal env nid upd tok g)) = redis g"
    by (simp add: update_notification_status_internal_def Let_def
          split: option.splits outcome.splits)
  then show ?case using reported by simp
next
  case (updated g env nid upd auth)
  have "redis (snd (gateway_update_notification_status env nid upd auth g)) = redis g"
    by (simp add: gateway_update_notification_status_def Let_def
          split: option.splits outcome.splits)
  then show ?case using updated by simp
next
  case (expired g k)
  then show ?case by (simp split: if_splits)
qed

lemma pg_uuid_sample: "pg_uuid sample_uuid = Some sample_uuid"
  by code_simp

lemma pg_uuid_demo: "pg_uuid ''demo-idempotent-1700000000'' = None"
  by code_simp

lemma sample_uuid_nonempty: "sample_uuid \<noteq> []"
  by (simp add: sample_uuid_def)

lemmas gateway_unfold =
  create_notification_def validate_and_publish_def record_and_publish_def
  update_notification_status_internal_def is_duplicate_def check_and_store_def
  generate_key_def log_call_def success_response_def error_response_def creation_failed_def
  gateway_init_def sample_request_def sample_gateway_env_def sample_user_def
  admitted_gateway_def UserData_dict_def pg_uuid_sample sample_uuid_nonempty Let_def

lemma record_and_publish_success:
  assumes run: "record_and_publish env n rid g = (resp, g1)" and ok: "success resp"
    and inv: "\<forall>t v. redis g (generate_key rid ''notification'') = Some (t, v) \<longrightarrow> truthy v"
  shows "\<exists>t v. redis g1 (generate_key rid ''notification'') = Some (t, v) \<and> truthy v"
    and "data resp = Some [(''notification_id'', JStr rid), (''status'', JStr ''pending'')]"
    and "\<forall>k. uuid_column env rid \<noteq> Returns k \<longrightarrow> db g1 k = db g k"
proof -
  let ?result = "[(''notification_id'', JStr rid), (''status'', JStr ''pending'')]"
  have g1: "redis g1 = snd (check_and_store (redis g) 3600 rid ''notification'' (JObj ?result))"
    using run ok
    by (auto simp add: record_and_publish_def Let_def
          split: option.splits outcome.splits prod.splits if_splits)
  show "\<exists>t v. redis g1 (generate_key rid ''notification'') = Some (t, v) \<and> truthy v"
  proof (cases "redis g (generate_key rid ''notification'')")
    case None
    then show ?thesis unfolding g1 by (simp add: check_and_store_absent)
  next
    case (Some tv)
    obtain t v where tv: "tv = (t, v)" by (cases tv)
    have "truthy v" using inv Some tv by simp
    then show ?thesis unfolding g1 using Some tv by (simp add: check_and_store_present)
  qed
  show "data resp = Some ?result"
    using run ok
    by (auto simp add: record_and_publish_def Let_def success_response_def
          split: option.splits outcome.splits prod.splits if_splits)
  show "\<forall>k. uuid_column env rid \<noteq> Returns k \<longrightarrow> db g1 k = db g k"
    using run ok
    by (auto simp add: record_and_publish_def Let_def
          split: option.splits outcome.splits prod.splits if_splits)
qed

lemma validate_and_publish_success:
  assumes run: "validate_and_publish env n rid g = (resp, g1)" and ok: "success resp"
    and inv: "\<forall>t v. redis g (generate_key rid ''notification'') = Some (t, v) \<longrightarrow> truthy v"
  shows "\<exists>t v. redis g1 (generate_key rid ''notification'') = Some (t, v) \<and> truthy v"
    and "data resp = Some [(''notification_id'', JStr rid), (''status'', JStr ''pending'')]"
    and "\<forall>k. uuid_column env rid \<noteq> Returns k \<longrightarrow> db g1 k = db g k"
proof -
  let ?g2 = "log_call (GetTemplate (template_code n)) (log_call (GetUser (user_id n)) g)"
  have rp: "record_and_publish env n rid ?g2 = (resp, g1)"
    using run ok
    by (auto simp add: validate_and_publish_def Let_def split: outcome.splits if_splits)
  have inv2: "\<forall>t v. redis ?g2 (generate_key rid ''notification'') = Some (t, v) \<longrightarrow> truthy v"
    using inv by simp
  show "\<exists>t v. redis g1 (generate_key rid ''notification'') = Some (t, v) \<and> truthy v"
    by (rule record_and_publish_success(1)[OF rp ok inv2])
  show "data resp = Some [(''notification_id'', JStr rid), (''status'', JStr ''pending'')]"
    by (rule record_and_publish_success(2)[OF rp ok inv2])
  show "\<forall>k. uuid_column env rid \<noteq> Returns k \<longrightarrow> db g1 k = db g k"
    using record_and_publish_success(3)[OF rp ok inv2] by simp
qed

lemma create_notification_success:
  assumes run: "create_notification env n auth g = (resp, g1)" and ok: "success resp"
    and rid: "request_id n = Some rid" "rid \<noteq> []"
    and inv: "\<forall>t v. redis g (generate_key rid ''notification'') = Some (t, v) \<longrightarrow> truthy v"
  shows "\<exists>t v. redis g1 (generate_key rid ''notification'') = Some (t, v) \<and> truthy v"
    and "data resp = Some [(''notification_id'', JStr rid), (''status'', JStr ''pending'')]"
    and "\<forall>k. uuid_column env rid \<noteq> Returns k \<longrightarrow> db g1 k = db g k"
proof -
  have auth: "user_id n = auth"
    using run ok rid by (auto simp add: create_notification_def Let_def split: if_splits)
  show "\<exists>t v. redis g1 (generate_key rid ''notification'') = Some (t, v) \<and> truthy v"
       "data resp = Some [(''notification_id'', JStr rid), (''status'', JStr ''pending'')]"
       "\<forall>k. uuid_column env rid \<noteq> Returns k \<longrightarrow> db g1 k = db g k"
  proof (atomize (full), cases "redis g (generate_key rid ''notification'')")
    case None
    then have "validate_and_publish env n rid g = (resp, g1)"
      using run rid auth by (simp add: create_notification_def is_duplicate_def)
    from validate_and_publish_success[OF this ok inv]
    show "(\<exists>t v. redis g1 (generate_key rid ''notification'') = Some (t, v) \<and> truthy v) \<and>
       data resp = Some [(''notification_id'', JStr rid), (''status'', JStr ''pending'')] \<and>
       (\<forall>k. uuid_column env rid \<noteq> Returns k \<longrightarrow> db g1 k = db g k)"
      by blast
  next
    case (Some tv)
    obtain t v where tv: "tv = (t, v)" by (cases tv)
    have v: "truthy v" using inv Some tv by simp
    have "resp = success_response [(''notification_id'', JStr rid), (''status'', JStr ''pending'')]
                   ''Notification already processed (idempotent)'' \<and> g1 = g"
      using run rid auth Some tv v
      by (auto simp add: create_notification_def is_duplicate_def check_and_store_present)
    then show "(\<exists>t v. redis g1 (generate_key rid ''notification'') = Some (t, v) \<and> truthy v) \<and>
       data resp = Some [(''notification_id'', JStr rid), (''status'', JStr ''pending'')] \<and>
       (\<forall>k. uuid_column env rid \<noteq> Returns k \<longrightarrow> db g1 k = db g k)"
      using Some tv v by (simp add: success_response_def)
  qed
qed

lemma record_and_publish_rejected:
  "\<not> success (fst (record_and_publish env n rid g)) \<Longrightarrow>
     redis (snd (record_and_publish env n rid g)) = redis g"
  by (auto simp add: record_and_publish_def Let_def success_response_def
        split: option.splits outcome.splits prod.splits if_splits)

lemma validate_and_publish_rejected:
  "\<not> success (fst (validate_and_publish env n rid g)) \<Longrightarrow>
     redis (snd (validate_and_publish env n rid g)) = redis g"
  by (auto simp add: validate_and_publish_def Let_def record_and_publish_rejected
        split: outcome.splits if_splits)

lemma create_notification_rejected:
  "\<not> success (fst (create_notification env n auth g)) \<Longrightarrow>
     redis (snd (create_notification env n auth g)) = redis g"
  by (auto simp add: create_notification_def Let_def is_duplicate_def check_and_store_def
        success_response_def validate_and_publish_rejected
        split: option.splits prod.splits if_splits)

lemma record_and_publish_trace:
  "\<exists>rest. trace (snd (record_and_publish env n rid g)) = trace g @ rest"
  by (auto simp add: record_and_publish_def Let_def log_call_def
        split: option.splits outcome.splits prod.splits)

lemma validate_and_publish_trace:
  "\<exists>rest. trace (snd (validate_and_publish env n rid g)) = trace g @ GetUser (user_id n) # rest"
proof -
  let ?g2 = "log_call (GetTemplate (template_code n)) (log_call (GetUser (user_id n)) g)"
  obtain more where "trace (snd (record_and_publish env n rid ?g2)) = trace ?g2 @ more"
    using record_and_publish_trace by blast
  then have "trace (snd (record_and_publish env n rid ?g2)) =
      trace g @ GetUser (user_id n) # GetTemplate (template_code n) # more"
    by (simp add: log_call_def)
  then show ?thesis
    using validate_and_publish_steps[of env n rid g] by (auto simp add: log_call_def)
qed

lemma create_notification_validates:
  assumes "redis g (generate_key rid ''notification'') = None"
    and "request_id n = Some rid" and "rid \<noteq> []" and "user_id n = auth"
  shows "\<exists>rest. trace (snd (create_notification env n auth g)) =
           trace g @ GetUser (user_id n) # rest"
proof -
  have "create_notification env n auth g = validate_and_publish env n rid g"
    using assms by (simp add: create_notification_def is_duplicate_def)
  then show ?thesis using validate_and_publish_trace by simp
qed

text \<open>
  C4, as amended. Let the gateway be in any state it can reach, and let a first call
  with request id \<open>rid\<close> be admitted (its reply is a success). Then a second call with
  the same request id, made by any user for themselves in any environment while the
  idempotency entry is still in the store, returns the same notification id and status
  (\<open>rid\<close>, \<open>pending\<close>) and leaves the gateway exactly as the first call left it: no
  record is created, the user and template services are not asked again, and nothing is
  published. The first call itself changes no record other than that of \<open>rid\<close> (the
  row kept under the uuid that \<open>rid\<close> spells). A call that is rejected, in any state, leaves the idempotency store as it was; and a
  call that finds no entry for its request id is validated again: the first thing it
  does is to ask the user service.
\<close>

theorem idempotent_replay:
  assumes "reachable g"
    and "request_id n1 = Some rid" and "rid \<noteq> []" and "request_id n2 = Some rid"
    and "create_notification env1 n1 auth1 g = (resp1, g1)" and "success resp1"
    and "user_id n2 = auth2"
  shows "create_notification env2 n2 auth2 g1 =
           (success_response [(''notification_id'', JStr rid), (''status'', JStr ''pending'')]
              ''Notification already processed (idempotent)'', g1)
       \<and> data resp1 = Some [(''notification_id'', JStr rid), (''status'', JStr ''pending'')]
       \<and> data (fst (create_notification env2 n2 auth2 g1)) = data resp1
       \<and> (\<forall>k. uuid_column env1 rid \<noteq> Returns k \<longrightarrow> db g1 k = db g k)
       \<and> (\<not> success (fst (create_notification env3 n3 auth3 g3)) \<longrightarrow>
            redis (snd (create_notification env3 n3 auth3 g3)) = redis g3)
       \<and> (redis g4 (generate_key rid ''notification'') = None \<longrightarrow>
            (\<exists>rest. trace (snd (create_notification env2 n2 auth2 g4)) =
                      trace g4 @ GetUser (user_id n2) # rest))"
proof -
  have inv: "\<forall>t v. redis g (generate_key rid ''notification'') = Some (t, v) \<longrightarrow> truthy v"
    using assms(1) reachable_cache_truthy by blast
  obtain t v where cached: "redis g1 (generate_key rid ''notification'') = Some (t, v)" "truthy v"
    using create_notification_success(1)[OF assms(5) assms(6) assms(2) assms(3) inv] by blast
  have replay: "create_notification env2 n2 auth2 g1 =
           (success_response [(''notification_id'', JStr rid), (''status'', JStr ''pending'')]
              ''Notification already processed (idempotent)'', g1)"
    using cached assms(3) assms(4) assms(7)
    by (simp add: create_notification_def is_duplicate_def check_and_store_present)
  have first: "data resp1 = Some [(''notification_id'', JStr rid), (''status'', JStr ''pending'')]"
    "\<forall>k. uuid_column env1 rid \<noteq> Returns k \<longrightarrow> db g1 k = db g k"
    using create_notification_success(2,3)[OF assms(5) assms(6) assms(2) assms(3) inv]
    by simp_all
  have same: "data (fst (create_notification env2 n2 auth2 g1)) = data resp1"
    unfolding replay first(1) by (simp add: success_response_def)
  have rejected: "\<not> success (fst (create_notification env3 n3 auth3 g3)) \<longrightarrow>
            redis (snd (create_notification env3 n3 auth3 g3)) = redis g3"
    using create_notification_rejected by blast
  have again: "redis g4 (generate_key rid ''notification'') = None \<longrightarrow>
            (\<exists>rest. trace (snd (create_notification env2 n2 auth2 g4)) =
                      trace g4 @ GetUser (user_id n2) # rest)"
    using create_notification_validates[OF _ assms(4) assms(3) assms(7)] by blast
  show ?thesis using replay first same rejected again by blast
qed

theorem idempotent_replay_witness:
  "create_notification no_user_gateway_env sample_request ''u-1'' admitted_gateway =
     (success_response [(''notification_id'', JStr sample_uuid), (''status'', JStr ''pending'')]
        ''Notification already processed (idempotent)'', admitted_gateway)
   \<and> data (fst (create_notification sample_gateway_env sample_request ''u-1'' gateway_init)) =
       Some [(''notification_id'', JStr sample_uuid), (''status'', JStr ''pending'')]
   \<and> \<not> success (fst (create_notification no_user_gateway_env sample_request ''u-1'' gateway_init))
   \<and> redis (snd (create_notification no_user_gateway_env sample_request ''u-1'' gateway_init)) =
       redis gateway_init
   \<and> trace (snd (create_notification sample_gateway_env sample_request ''u-1'' gateway_init)) =
       [GetUser ''u-1'', GetTemplate ''welcome_email'', DbAdd sample_uuid,
        QueuePublish ''email''
          (JObj [(''request_id'', JStr sample_uuid), (''user_id'', JStr ''u-1''),
                 (''template_code'', JStr ''welcome_email''),
                 (''variables'', JObj [(''name'', JStr ''Ada''), (''link'', JStr ''l''),
                                       (''meta'', JNull)]),
                 (''priority'', JInt 5), (''metadata'', JNull)])]"
proof -
  have rid: "request_id sample_request = Some sample_uuid" "sample_uuid \<noteq> []"
    and auth: "user_id sample_request = ''u-1''"
    by (simp_all add: sample_request_def sample_uuid_nonempty)
  have first: "create_notification sample_gateway_env sample_request ''u-1'' gateway_init =
      (fst (create_notification sample_gateway_env sample_request ''u-1'' gateway_init),
       admitted_gateway)"
    by (simp add: admitted_gateway_def)
  have ok: "success (fst (create_notification sample_gateway_env sample_request ''u-1'' gateway_init))"
    by (simp add: gateway_unfold)
  have rejected: "\<not> success (fst (create_notification no_user_gateway_env sample_request ''u-1''
                                      gateway_init))"
    by (simp add: gateway_unfold no_user_gateway_env_def)
  have fresh: "redis gateway_init (generate_key sample_uuid ''notification'') = None"
    by (simp add: gateway_init_def)
  have run: "trace (snd (create_notification sample_gateway_env sample_request ''u-1'' gateway_init)) =
       [GetUser ''u-1'', GetTemplate ''welcome_email'', DbAdd sample_uuid,
        QueuePublish ''email''
          (JObj [(''request_id'', JStr sample_uuid), (''user_id'', JStr ''u-1''),
                 (''template_code'', JStr ''welcome_email''),
                 (''variables'', JObj [(''name'', JStr ''Ada''), (''link'', JStr ''l''),
                                       (''meta'', JNull)]),
                 (''priority'', JInt 5), (''metadata'', JNull)])]"
    by (simp add: gateway_unfold)
  from idempotent_replay [OF reachable.start rid(1) rid(2) rid(1) first ok auth,
      of no_user_gateway_env no_user_gateway_env sample_request "''u-1''" gateway_init
         gateway_init]
    rejected fresh run
  show ?thesis by blast
qed

text \<open>
  C4 as stated fails when the first call is not admitted. The first call meets a user
  service that does not know the user and is rejected; nothing is cached. The second
  call, same request id, is validated again (the user service is asked a second time),
  is admitted and publishes, and its reply differs from the first. It also fails once
  the idempotency entry of an admitted request has expired: the repeat is validated
  again and ends in an error at the insert.
\<close>

theorem idempotent_replay_counterexample:
  "\<not> success (fst (create_notification no_user_gateway_env sample_request ''u-1'' gateway_init))
   \<and> trace (snd (create_notification no_user_gateway_env sample_request ''u-1'' gateway_init)) =
       [GetUser ''u-1'']
   \<and> success (fst (create_notification sample_gateway_env sample_request ''u-1''
        (snd (create_notification no_user_gateway_env sample_request ''u-1'' gateway_init))))
   \<and> trace (snd (create_notification sample_gateway_env sample_request ''u-1''
        (snd (create_notification no_user_gateway_env sample_request ''u-1'' gateway_init)))) =
       [GetUser ''u-1'', GetUser ''u-1'', GetTemplate ''welcome_email'', DbAdd sample_uuid,
        QueuePublish ''email''
          (JObj [(''request_id'', JStr sample_uuid), (''user_id'', JStr ''u-1''),
                 (''template_code'', JStr ''welcome_email''),
                 (''variables'', JObj [(''name'', JStr ''Ada''), (''link'', JStr ''l''),
                                       (''meta'', JNull)]),
                 (''priority'', JInt 5), (''metadata'', JNull)])]
   \<and> \<not> success (fst (create_notification sample_gateway_env sample_request ''u-1''
                       expired_gateway))
   \<and> trace (snd (create_notification sample_gateway_env sample_request ''u-1'' expired_gateway)) =
       trace admitted_gateway @ [GetUser ''u-1'', GetTemplate ''welcome_email'', DbAdd sample_uuid]"
  by (simp add: gateway_unfold no_user_gateway_env_def expired_gateway_def)

text \<open>
  A request id that the uuid column refuses never gets as far as the idempotency store:
  the insert raises, so nothing is published or cached and the call is rejected. The
  demonstration script (scripts/demo\_all\_features.py) sends such an id twice and
  expects the same notification both times; both calls are validated and both end in
  \<open>Failed to create notification\<close>.
\<close>

lemma non_uuid_request_is_rejected:
  assumes "uuid_column env rid = Raises e"
  shows "record_and_publish env n rid g = (creation_failed e, log_call (DbAdd rid) g)"
  using assms by (simp add: record_and_publish_def Let_def)

lemma demonstration_request_is_rejected_twice:
  "\<not> success (fst (create_notification sample_gateway_env demo_request ''u-1'' gateway_init))
   \<and> \<not> success (fst (create_notification sample_gateway_env demo_request ''u-1''
        (snd (create_notification sample_gateway_env demo_request ''u-1'' gateway_init))))
   \<and> message (fst (create_notification sample_gateway_env demo_request ''u-1''
        (snd (create_notification sample_gateway_env demo_request ''u-1'' gateway_init)))) =
       ''Failed to create notification''
   \<and> trace (snd (create_notification sample_gateway_env demo_request ''u-1''
        (snd (create_notification sample_gateway_env demo_request ''u-1'' gateway_init)))) =
       [GetUser ''u-1'', GetTemplate ''welcome_email'', DbAdd ''demo-idempotent-1700000000'',
        GetUser ''u-1'', GetTemplate ''welcome_email'', DbAdd ''demo-idempotent-1700000000'']"
  by (simp add: gateway_unfold demo_request_def pg_uuid_demo)

text \<open>
  C10. A call of the internal status endpoint that carries the service token, names an
  existing record and whose commit goes through replaces the record's status by the
  supplied one, whatever the status was; no transition is refused. And the email
  consumer, on a failed attempt at a message whose body is a JSON object, posts the
  status \<open>failed\<close> for the message's request id before it takes the retry decision
  (the nack comes after the report).
\<close>

theorem internal_status_update_overwrites:
  assumes token: "tok = Some (gw_service_token genv)"
    and row: "db g nid = Some row"
    and commit: "db_commit genv = Returns ()"
  shows "success (fst (update_notification_status_internal genv nid upd tok g))
       \<and> map_option notif_status
            (db (snd (update_notification_status_internal genv nid upd tok g)) nid)
           = Some (NotificationStatus_value (status upd))
       \<and> (\<forall>k. k \<noteq> nid \<longrightarrow>
             db (snd (update_notification_status_internal genv nid upd tok g)) k = db g k)
       \<and> (json_loads env body = Returns (JObj kvs) \<and>
          email_try env cb tag body = (Raises e, evs, cb') \<longrightarrow>
            fst (EmailConsumer_process_message env cb tag props body) =
              evs @ update_notification_status env
                      (case map_of kvs ''request_id'' of None \<Rightarrow> JStr ''unknown'' | Some v \<Rightarrow> v)
                      ''failed'' (Some (exc_msg e))
                  @ fst (retry_or_dead_letter tag props body)
          \<and> hd (update_notification_status env
                  (case map_of kvs ''request_id'' of None \<Rightarrow> JStr ''unknown'' | Some v \<Rightarrow> v)
                  ''failed'' (Some (exc_msg e))) =
              RequestsPost
                (case map_of kvs ''request_id'' of None \<Rightarrow> JStr ''unknown'' | Some v \<Rightarrow> v)
                ((''status'', JStr ''failed'') #
                   (if exc_msg e \<noteq> [] then [(''error'', JStr (exc_msg e))] else []))
                (service_token env))"
proof -
  have endpoint: "success (fst (update_notification_status_internal genv nid upd tok g))
       \<and> map_option notif_status
            (db (snd (update_notification_status_internal genv nid upd tok g)) nid)
           = Some (NotificationStatus_value (status upd))
       \<and> (\<forall>k. k \<noteq> nid \<longrightarrow>
             db (snd (update_notification_status_internal genv nid upd tok g)) k = db g k)"
    using assms
    by (simp add: update_notification_status_internal_def Let_def success_response_def)
  have consumer: "fst (EmailConsumer_process_message env cb tag props body) =
              evs @ update_notification_status env
                      (case map_of kvs ''request_id'' of None \<Rightarrow> JStr ''unknown'' | Some v \<Rightarrow> v)
                      ''failed'' (Some (exc_msg e))
                  @ fst (retry_or_dead_letter tag props body)"
    if "json_loads env body = Returns (JObj kvs)"
      and "email_try env cb tag body = (Raises e, evs, cb')"
    using that
    by (simp add: EmailConsumer_process_message_def email_report_failed_def
          split: prod.splits)
  have report: "hd (update_notification_status env rid ''failed'' (Some (exc_msg e))) =
              RequestsPost rid
                ((''status'', JStr ''failed'') #
                   (if exc_msg e \<noteq> [] then [(''error'', JStr (exc_msg e))] else []))
                (service_token env)" for rid
    by (simp add: update_notification_status_def Let_def)
  show ?thesis using endpoint consumer report by blast
qed

theorem internal_status_update_overwrites_witness:
  "map_option notif_status (db delivered_gateway sample_uuid) = Some ''delivered''
   \<and> map_option notif_status
        (db (snd (update_notification_status_internal sample_gateway_env sample_uuid
                    \<lparr>status = failed, timestamp = None, update_error = Some ''smtp down''\<rparr>
                    (Some ''internal-service-token'') delivered_gateway)) sample_uuid)
       = Some ''failed''
   \<and> fst (EmailConsumer_process_message user_missing_env sample_breaker 1 no_headers sample_body) =
       [RequestsPost (JStr ''r-1'')
          [(''status'', JStr ''failed''),
           (''error'', JStr ''User u-1 not found or has no email'')]
          ''internal-service-token'',
        BasicNack 1 True]"
proof -
  have before: "map_option notif_status (db delivered_gateway sample_uuid) = Some ''delivered''"
    by (simp add: gateway_unfold delivered_gateway_def)
  then obtain row where row: "db delivered_gateway sample_uuid = Some row"
    by blast
  have token: "Some ''internal-service-token'' = Some (gw_service_token sample_gateway_env)"
    and commit: "db_commit sample_gateway_env = Returns ()"
    by (simp_all add: sample_gateway_env_def)
  have loads: "json_loads user_missing_env sample_body =
      Returns (JObj [(''request_id'', JStr ''r-1''), (''user_id'', JStr ''u-1''),
                     (''template_code'', JStr ''welcome_email''),
                     (''variables'', JObj [(''name'', JStr ''Ada''), (''link'', JStr ''l'')]),
                     (''priority'', JInt 5), (''metadata'', JNull)])"
    by (simp add: sample_unfold)
  have attempt: "email_try user_missing_env sample_breaker 1 sample_body =
      (Raises (PyExc ''Exception'' ''User u-1 not found or has no email''), [], sample_breaker)"
    by (simp add: email_try_def sample_unfold)
  from internal_status_update_overwrites [OF token row commit,
      of "\<lparr>status = failed, timestamp = None, update_error = Some ''smtp down''\<rparr>"
         user_missing_env sample_body _ sample_breaker 1 _ "[]" sample_breaker no_headers]
    loads attempt before
  show ?thesis by (simp add: run_unfold sample_unfold)
qed

text \<open>A body that is JSON but no object (here a non-empty list) fails in the \<open>try\<close>
  block and fails again inside the report, which is skipped: the consumer nacks without
  having posted anything.\<close>

lemma non_object_body_is_not_reported:
  assumes "json_loads env body = Returns (JArr (x # xs))"
  shows "fst (EmailConsumer_process_message env cb tag props body) =
           fst (retry_or_dead_letter tag props body)"
  using assms
  by (simp add: EmailConsumer_process_message_def email_try_def email_report_failed_def
        split: prod.splits)

end
